theory Spec2Isabelle
  imports Complex_Main
begin

section \<open>Conversation store\<close>

text \<open>
  The module-level dictionary \<^verbatim>\<open>conversation_history\<close> maps a user id to the list
  of that user's entries. Each entry is the dictionary built by
  \<^verbatim>\<open>add_to_conversation_history\<close>, with the keys \<^verbatim>\<open>message\<close>, \<^verbatim>\<open>is_user\<close>
  and \<^verbatim>\<open>timestamp\<close>. The timestamp is \<^verbatim>\<open>datetime.now().isoformat()\<close>; the
  clock reading is an argument of the model.
\<close>

type_synonym user_id = string

record entry =
  message :: string
  is_user :: bool
  timestamp :: string

type_synonym history_store = "user_id \<rightharpoonup> entry list"

text \<open>
  Python's slice \<^verbatim>\<open>xs[i:]\<close>: a negative start counts from the end and is clipped
  at the front of the list, a start beyond the end gives the empty list. Note that
  \<^verbatim>\<open>xs[-0:]\<close> is \<^verbatim>\<open>xs[0:]\<close>, the whole list.
\<close>

definition slice_from :: "int \<Rightarrow> 'a list \<Rightarrow> 'a list" where
  "slice_from i xs =
     (let n = int (length xs);
          j = (if i < 0 then max 0 (n + i) else min i n)
      in drop (nat j) xs)"

text \<open>
  \<^verbatim>\<open>def get_conversation_history(user_id, max_messages=10)\<close>. The optional argument
  is \<open>None\<close> when the caller supplies no count.
\<close>

definition get_conversation_history ::
  "history_store \<Rightarrow> user_id \<Rightarrow> int option \<Rightarrow> entry list" where
  "get_conversation_history conversation_history uid max_messages_arg =
     (let max_messages = (case max_messages_arg of None \<Rightarrow> 10 | Some m \<Rightarrow> m)
      in case conversation_history uid of
           None \<Rightarrow> []
         | Some h \<Rightarrow> slice_from (- max_messages) h)"

text \<open>
  \<^verbatim>\<open>def add_to_conversation_history(user_id, message, is_user=True)\<close>; \<open>now\<close> is the
  ISO rendering of the clock at the call. The function returns the updated store.
\<close>

definition add_to_conversation_history ::
  "history_store \<Rightarrow> user_id \<Rightarrow> string \<Rightarrow> bool option \<Rightarrow> string \<Rightarrow> history_store" where
  "add_to_conversation_history conversation_history uid msg is_user_arg now =
     (let isu = (case is_user_arg of None \<Rightarrow> True | Some b \<Rightarrow> b);
          h0 = (case conversation_history uid of None \<Rightarrow> [] | Some h \<Rightarrow> h);
          h1 = h0 @ [\<lparr>message = msg, is_user = isu, timestamp = now\<rparr>];
          h2 = (if length h1 > 20 then slice_from (- 20) h1 else h1)
      in conversation_history(uid \<mapsto> h2))"

text \<open>One call of \<^verbatim>\<open>add_to_conversation_history\<close>: its four arguments.\<close>

record append_call =
  ac_user :: user_id
  ac_message :: string
  ac_is_user :: "bool option"
  ac_now :: string

definition do_append :: "history_store \<Rightarrow> append_call \<Rightarrow> history_store" where
  "do_append st c =
     add_to_conversation_history st (ac_user c) (ac_message c) (ac_is_user c) (ac_now c)"

text \<open>A sequence of calls, run in order from a given store.\<close>

fun run_appends :: "history_store \<Rightarrow> append_call list \<Rightarrow> history_store" where
  "run_appends st [] = st"
| "run_appends st (c # cs) = run_appends (do_append st c) cs"

text \<open>The entry a call inserts.\<close>

definition entry_of :: "append_call \<Rightarrow> entry" where
  "entry_of c =
     \<lparr>message = ac_message c,
      is_user = (case ac_is_user c of None \<Rightarrow> True | Some b \<Rightarrow> b),
      timestamp = ac_now c\<rparr>"

text \<open>The last \<open>n\<close> elements of a list, in their order.\<close>

definition last_n :: "nat \<Rightarrow> 'a list \<Rightarrow> 'a list" where
  "last_n n xs = drop (length xs - n) xs"

text \<open>The stored history of a user, empty when the user id is not a key.\<close>

definition hist_of :: "history_store \<Rightarrow> user_id \<Rightarrow> entry list" where
  "hist_of st u = (case st u of None \<Rightarrow> [] | Some h \<Rightarrow> h)"

text \<open>A concrete call of user \<open>u\<close>, numbered \<open>n\<close>, used to run the store.\<close>

definition sample_call :: "nat \<Rightarrow> append_call" where
  "sample_call n =
     \<lparr>ac_user = ''u'', ac_message = replicate n (CHR ''m''),
      ac_is_user = None, ac_now = ''2025-06-27T10:00:00''\<rparr>"

section \<open>Strings\<close>

text \<open>
  Python strings are modelled as \<open>string\<close>, one \<open>char\<close> per character; the model is
  exact on ASCII text. The characters that delimit Isabelle's own literals are named.
\<close>

definition dquote :: char where
  "dquote = CHR 0x22"

definition squote :: char where
  "squote = CHR 0x27"

text \<open>
  \<^verbatim>\<open>str.isspace\<close>, and \<^verbatim>\<open>\s\<close> of a \<^verbatim>\<open>str\<close> pattern, on ASCII: tab, line feed,
  vertical tab, form feed, carriage return, the four separators \<^verbatim>\<open>\x1c\<close> to
  \<^verbatim>\<open>\x1f\<close>, and the space.
\<close>

definition is_space :: "char \<Rightarrow> bool" where
  "is_space c \<longleftrightarrow>
     c \<in> set [CHR 0x09, CHR 0x0A, CHR 0x0B, CHR 0x0C, CHR 0x0D,
              CHR 0x1C, CHR 0x1D, CHR 0x1E, CHR 0x1F, CHR 0x20]"

text \<open>\<^verbatim>\<open>str.strip()\<close>: whitespace removed at both ends.\<close>

definition strip :: "string \<Rightarrow> string" where
  "strip s = rev (dropWhile is_space (rev (dropWhile is_space s)))"

text \<open>\<^verbatim>\<open>str.lower()\<close> on ASCII: the letters A to Z are mapped to a to z.\<close>

definition lower_char :: "char \<Rightarrow> char" where
  "lower_char c =
     (case map_of (zip ''ABCDEFGHIJKLMNOPQRSTUVWXYZ'' ''abcdefghijklmnopqrstuvwxyz'') c of
        None \<Rightarrow> c
      | Some l \<Rightarrow> l)"

definition lower :: "string \<Rightarrow> string" where
  "lower s = map lower_char s"

text \<open>\<^verbatim>\<open>s.startswith(p)\<close>.\<close>

fun starts_with :: "string \<Rightarrow> string \<Rightarrow> bool" where
  "starts_with [] s = True"
| "starts_with (p # ps) [] = False"
| "starts_with (p # ps) (c # cs) = (p = c \<and> starts_with ps cs)"

text \<open>
  The operator \<^verbatim>\<open>needle in haystack\<close> on strings: the haystack is searched from the
  left for a position where the needle starts.
\<close>

fun py_in :: "string \<Rightarrow> string \<Rightarrow> bool" where
  "py_in needle [] = (needle = [])"
| "py_in needle (c # cs) = (starts_with needle (c # cs) \<or> py_in needle cs)"

text \<open>
  \<^verbatim>\<open>s.replace(old, new)\<close>: every occurrence of \<open>old\<close>, found from the left without
  overlap, is replaced. \<open>replace_from\<close> is the scan for a non-empty \<open>old\<close>; for the empty
  \<open>old\<close> Python inserts \<open>new\<close> before every character and at the end.
\<close>

function replace_from :: "string \<Rightarrow> string \<Rightarrow> string \<Rightarrow> string" where
  "replace_from old new [] = []"
| "replace_from old new (c # cs) =
     (if old \<noteq> [] \<and> starts_with old (c # cs)
      then new @ replace_from old new (drop (length old) (c # cs))
      else c # replace_from old new cs)"
  by pat_completeness auto
termination
  by (relation "measure (\<lambda>(old, new, s). length s)") (auto simp: neq_Nil_conv)

definition str_replace :: "string \<Rightarrow> string \<Rightarrow> string \<Rightarrow> string" where
  "str_replace old new s =
     (if old = [] then new @ concat (map (\<lambda>c. c # new) s) else replace_from old new s)"

text \<open>\<^verbatim>\<open>s.find(c)\<close> for a one-character \<open>c\<close>: the first index, \<open>None\<close> for Python's \<open>-1\<close>.\<close>

fun str_find :: "char \<Rightarrow> string \<Rightarrow> nat option" where
  "str_find x [] = None"
| "str_find x (c # cs) = (if c = x then Some 0 else map_option Suc (str_find x cs))"

text \<open>\<^verbatim>\<open>s.split('T')[0]\<close>: the text before the first \<open>T\<close>, all of it when there is none.\<close>

definition split_T_first :: "string \<Rightarrow> string" where
  "split_T_first s = takeWhile (\<lambda>c. c \<noteq> CHR ''T'') s"

text \<open>\<^verbatim>\<open>str(n)\<close> of a natural number: its decimal digits.\<close>

fun digits_of :: "nat \<Rightarrow> nat \<Rightarrow> string" where
  "digits_of 0 n = []"
| "digits_of (Suc fuel) n =
     (if n < 10 then [''0123456789'' ! n]
      else digits_of fuel (n div 10) @ [''0123456789'' ! (n mod 10)])"

definition str_of_nat :: "nat \<Rightarrow> string" where
  "str_of_nat n = digits_of (Suc n) n"

section \<open>Values, the library, and the provider\<close>

text \<open>
  What \<^verbatim>\<open>json.loads\<close> returns: \<open>None\<close>, a \<open>bool\<close>, an \<open>int\<close>, a \<open>float\<close> (a finite
  one, as its real value), a \<open>str\<close>, a \<open>list\<close> or a \<open>dict\<close>. A dictionary is an
  association list; the first pair of a key is its entry.
\<close>

datatype json =
    JNull
  | JBool bool
  | JInt int
  | JFloat real
  | JStr string
  | JArr "json list"
  | JObj "(string \<times> json) list"

type_synonym pydict = "(string \<times> json) list"

text \<open>\<^verbatim>\<open>d.get(key)\<close> (default \<open>None\<close>) and \<^verbatim>\<open>d.get(key, default)\<close>.\<close>

definition dict_get :: "pydict \<Rightarrow> string \<Rightarrow> json \<Rightarrow> json" where
  "dict_get d k dflt = (case map_of d k of None \<Rightarrow> dflt | Some v \<Rightarrow> v)"

text \<open>The truth value of an object in a condition (\<^verbatim>\<open>if x:\<close>).\<close>

fun truthy :: "json \<Rightarrow> bool" where
  "truthy JNull = False"
| "truthy (JBool b) = b"
| "truthy (JInt i) = (i \<noteq> 0)"
| "truthy (JFloat r) = (r \<noteq> 0)"
| "truthy (JStr s) = (s \<noteq> [])"
| "truthy (JArr xs) = (xs \<noteq> [])"
| "truthy (JObj kvs) = (kvs \<noteq> [])"

text \<open>The name of an object's type, as it appears in an \<^verbatim>\<open>AttributeError\<close>.\<close>

fun type_name :: "json \<Rightarrow> string" where
  "type_name JNull = ''NoneType''"
| "type_name (JBool b) = ''bool''"
| "type_name (JInt i) = ''int''"
| "type_name (JFloat r) = ''float''"
| "type_name (JStr s) = ''str''"
| "type_name (JArr xs) = ''list''"
| "type_name (JObj kvs) = ''dict''"

text \<open>
  An exception is modelled by its text, \<^verbatim>\<open>str(e)\<close>: that is all the handlers of the
  source read. The text of the \<^verbatim>\<open>AttributeError\<close> raised by \<^verbatim>\<open>x.attr\<close>:
\<close>

definition attribute_error :: "json \<Rightarrow> string \<Rightarrow> string" where
  "attribute_error x attr =
     [squote] @ type_name x @ [squote] @ '' object has no attribute ''
       @ [squote] @ attr @ [squote]"

text \<open>
  A \<^verbatim>\<open>datetime\<close> object: its fields and, for an aware object, its offset from UTC in
  microseconds; a naive object has no offset.
\<close>

record datetime =
  dt_year :: nat
  dt_month :: nat
  dt_day :: nat
  dt_hour :: nat
  dt_minute :: nat
  dt_second :: nat
  dt_microsecond :: nat
  dt_utcoffset :: "int option"

text \<open>The outcome of \<^verbatim>\<open>json.loads\<close>: the value, a \<^verbatim>\<open>JSONDecodeError\<close>, or another
  exception (such as \<^verbatim>\<open>RecursionError\<close>); the errors carry their text.\<close>

datatype loads_result =
    Loaded json
  | JSONDecodeError string
  | OtherError string

text \<open>
  The library functions whose code is not part of the repository are parameters:
  \<^verbatim>\<open>json.loads\<close>, \<^verbatim>\<open>datetime.fromisoformat\<close> (\<open>Inl\<close> is the text of its
  \<^verbatim>\<open>ValueError\<close>) and \<^verbatim>\<open>repr\<close> of a number, list or dictionary.
\<close>

record pylib =
  json_loads :: "string \<Rightarrow> loads_result"
  fromisoformat :: "string \<Rightarrow> string + datetime"
  py_repr :: "json \<Rightarrow> string"

text \<open>\<^verbatim>\<open>str(x)\<close>, as an f-string renders a value.\<close>

definition py_str :: "pylib \<Rightarrow> json \<Rightarrow> string" where
  "py_str L x =
     (case x of
        JStr s \<Rightarrow> s
      | JNull \<Rightarrow> ''None''
      | JBool b \<Rightarrow> (if b then ''True'' else ''False'')
      | _ \<Rightarrow> py_repr L x)"

section \<open>The repair pass\<close>

text \<open>
  \<open>closes cl s\<close>: the text \<open>s\<close> starts with whitespace (possibly none) followed by one of
  the characters \<open>cl\<close>; this is the group \<^verbatim>\<open>(\s*[}\]])\<close>, or \<^verbatim>\<open>(\s*})\<close>, of the two
  patterns of \<^verbatim>\<open>clean_json_string\<close>.
\<close>

fun closes :: "char list \<Rightarrow> string \<Rightarrow> bool" where
  "closes cl [] = False"
| "closes cl (c # cs) = (if c \<in> set cl then True else if is_space c then closes cl cs else False)"

text \<open>
  \<^verbatim>\<open>re.sub(r',(\s*[}\]])', r'\1', s)\<close>: every comma that is followed by the group is
  dropped and the group is kept. The group holds no comma, so resuming the scan after the
  comma gives the same text as resuming it after the group.
\<close>

fun sub_trailing_commas :: "char list \<Rightarrow> string \<Rightarrow> string" where
  "sub_trailing_commas cl [] = []"
| "sub_trailing_commas cl (c # cs) =
     (if c = CHR '','' \<and> closes cl cs then sub_trailing_commas cl cs
      else c # sub_trailing_commas cl cs)"

text \<open>
  The text that the second \<^verbatim>\<open>replace\<close> line of \<^verbatim>\<open>clean_json_string\<close> looks for. In the
  source that line is
  \<^verbatim>\<open>json_str.replace(''', "'").replace(''', "'")\<close>
  written with plain ASCII quotes: the three quotes open a triple-quoted string that
  ends at the next three quotes, so the line is one call of \<^verbatim>\<open>replace\<close> whose first
  argument is the fifteen characters between them and whose second argument is one
  single quote.
\<close>

definition quote_issue_pattern :: string where
  "quote_issue_pattern = '', '' @ [dquote, squote, dquote] @ '').replace(''"

text \<open>
  \<^verbatim>\<open>clean_json_string\<close>. The first \<^verbatim>\<open>replace\<close> line of the source replaces the ASCII
  double quote by the ASCII double quote, twice.
\<close>

definition clean_json_string :: "string \<Rightarrow> string" where
  "clean_json_string json_str =
     (let s1 = sub_trailing_commas ''}]'' json_str;
          s2 = sub_trailing_commas ''}'' s1;
          s3 = str_replace [dquote] [dquote] (str_replace [dquote] [dquote] s2);
          s4 = str_replace quote_issue_pattern [squote] s3
      in strip s4)"

section \<open>Locating and parsing the instruction\<close>

text \<open>The text up to and including the last closing brace of \<open>s\<close>.\<close>

definition upto_last_brace :: "string \<Rightarrow> string" where
  "upto_last_brace s = rev (dropWhile (\<lambda>c. c \<noteq> CHR ''}'') (rev s))"

text \<open>
  The pattern \<^verbatim>\<open>instruction:\s*(\{.*\})\<close> with \<^verbatim>\<open>re.DOTALL\<close>, tried at the start of \<open>s\<close>:
  the label, whitespace, an opening brace, and then, \<^verbatim>\<open>.*\<close> being greedy, everything up
  to the last closing brace of the text. The result is the group.
\<close>

definition match_instruction_at :: "string \<Rightarrow> string option" where
  "match_instruction_at s =
     (if starts_with ''instruction:'' s
      then (case dropWhile is_space (drop (length ''instruction:'') s) of
              [] \<Rightarrow> None
            | c # t \<Rightarrow>
                if c = CHR ''{'' \<and> CHR ''}'' \<in> set t
                then Some (c # upto_last_brace t) else None)
      else None)"

text \<open>\<^verbatim>\<open>re.search\<close>: the leftmost position where the pattern matches.\<close>

fun find_instruction :: "string \<Rightarrow> string option" where
  "find_instruction [] = None"
| "find_instruction (c # cs) =
     (case match_instruction_at (c # cs) of
        Some g \<Rightarrow> Some g
      | None \<Rightarrow> find_instruction cs)"

text \<open>
  The recovery loop of \<^verbatim>\<open>process_ai_instruction\<close>, from \<open>start_pos\<close> on: \<open>bc\<close> is
  \<open>brace_count\<close>, the argument is the rest of the text, and the result is the number of
  characters up to and including the closing brace at which the count is zero; \<open>None\<close>
  when the loop runs to the end of the text (the \<^verbatim>\<open>else\<close> of the \<^verbatim>\<open>for\<close>).
\<close>

fun scan_braces :: "int \<Rightarrow> string \<Rightarrow> nat option" where
  "scan_braces bc [] = None"
| "scan_braces bc (c # cs) =
     (if c = CHR ''{'' then map_option Suc (scan_braces (bc + 1) cs)
      else if c = CHR ''}''
      then (if bc - 1 = 0 then Some 1 else map_option Suc (scan_braces (bc - 1) cs))
      else map_option Suc (scan_braces bc cs))"

section \<open>Candidates, envelopes and provider calls\<close>

text \<open>
  A task and an event as the provider returns them. The identifier is always present;
  the title (\<^verbatim>\<open>title\<close>, \<^verbatim>\<open>summary\<close>), the due date and the two forms of an event's
  \<^verbatim>\<open>start\<close> (\<^verbatim>\<open>dateTime\<close> for a timed event, \<^verbatim>\<open>date\<close> for an all-day one) may be
  missing. An event without \<^verbatim>\<open>start\<close> has neither form.
\<close>

record task =
  task_id :: string
  task_title :: "string option"
  task_due :: "string option"

record event =
  event_id :: string
  event_summary :: "string option"
  event_dateTime :: "string option"
  event_date :: "string option"

text \<open>
  The dictionary a handler returns. Each key the modelled functions use is a field,
  \<open>None\<close> when the key is not in the dictionary; \<open>env_other\<close> holds the keys of the
  handlers that are not modelled.
\<close>

record envelope =
  env_success :: "bool option"
  env_message :: "string option"
  env_error :: "string option"
  env_clarification :: "bool option"
  env_tasks :: "task list option"
  env_events :: "event list option"
  env_formatted_response :: "string option"
  env_other :: pydict

definition empty_env :: envelope where
  "empty_env =
     \<lparr>env_success = None, env_message = None, env_error = None, env_clarification = None,
      env_tasks = None, env_events = None, env_formatted_response = None, env_other = []\<rparr>"

text \<open>\<^verbatim>\<open>{"error": msg}\<close>\<close>

definition err_env :: "string \<Rightarrow> envelope" where
  "err_env msg = empty_env\<lparr>env_error := Some msg\<rparr>"

text \<open>The calls made on the provider's services, in the order they are executed.\<close>

datatype call =
    TasklistsList
  | TasksList string
  | TasksDelete string string
  | EventsList string string
  | EventsDelete string

text \<open>
  The handlers \<^verbatim>\<open>process_ai_instruction\<close> routes to. Each takes the instruction and the
  user id and returns its dictionary; the model adds the provider calls it made. Every
  handler of the source returns a dictionary on every path (its body is inside
  \<^verbatim>\<open>try\<close> / \<^verbatim>\<open>except Exception\<close>, or is a single \<^verbatim>\<open>return\<close>).
\<close>

type_synonym handler = "json \<Rightarrow> user_id \<Rightarrow> envelope \<times> call list"

record handlers =
  create_calendar_event_from_instruction :: handler
  create_task_from_instruction :: handler
  update_calendar_event_from_instruction :: handler
  update_task_from_instruction :: handler
  delete_calendar_event_from_instruction :: handler
  delete_task_from_instruction :: handler
  find_and_delete_calendar_event_handler :: handler
  find_and_delete_task_handler :: handler
  query_calendar_events_from_instruction :: handler
  query_tasks_from_instruction :: handler

section \<open>The dispatcher\<close>

text \<open>
  The result of \<^verbatim>\<open>process_ai_instruction\<close>: the returned object, \<open>None\<close> when the
  function ends without a \<^verbatim>\<open>return\<close> (Python then returns \<open>None\<close>), and the provider
  calls made.
\<close>

type_synonym dispatch_result = "envelope option \<times> call list"

definition returned :: "envelope \<times> call list \<Rightarrow> dispatch_result" where
  "returned r = (Some (fst r), snd r)"

text \<open>The inner branch on \<open>item_type\<close> that each of the five routed actions has: no
  \<^verbatim>\<open>else\<close>, so any other item type leaves the \<^verbatim>\<open>if\<close> chain.\<close>

definition by_item_type :: "json \<Rightarrow> handler \<Rightarrow> handler \<Rightarrow> json \<Rightarrow> user_id \<Rightarrow> dispatch_result" where
  "by_item_type item_type on_event on_task instruction uid =
     (if item_type = JStr ''event'' then returned (on_event instruction uid)
      else if item_type = JStr ''task'' then returned (on_task instruction uid)
      else (None, []))"

text \<open>
  Lines 964 to 1007 of \<^verbatim>\<open>process_ai_instruction\<close>, for an instruction that is a
  dictionary.
\<close>

definition route :: "pylib \<Rightarrow> handlers \<Rightarrow> pydict \<Rightarrow> user_id \<Rightarrow> dispatch_result" where
  "route L H instruction uid =
     (let action = dict_get instruction ''action'' JNull;
          item_type = dict_get instruction ''item_type'' JNull
      in
      if action = JStr ''greeting''
      then (Some (empty_env\<lparr>env_success := Some True,
                              env_message := Some ''Greeting processed''\<rparr>), [])
      else if action = JStr ''create''
      then by_item_type item_type (create_calendar_event_from_instruction H)
             (create_task_from_instruction H) (JObj instruction) uid
      else if action = JStr ''update''
      then by_item_type item_type (update_calendar_event_from_instruction H)
             (update_task_from_instruction H) (JObj instruction) uid
      else if action = JStr ''delete''
      then by_item_type item_type (delete_calendar_event_from_instruction H)
             (delete_task_from_instruction H) (JObj instruction) uid
      else if action = JStr ''find_and_delete''
      then by_item_type item_type (find_and_delete_calendar_event_handler H)
             (find_and_delete_task_handler H) (JObj instruction) uid
      else if action = JStr ''query''
      then by_item_type item_type (query_calendar_events_from_instruction H)
             (query_tasks_from_instruction H) (JObj instruction) uid
      else if action = JStr ''clarification_needed''
      then (Some (empty_env\<lparr>env_success := Some True,
                              env_message := Some ''Clarification needed'',
                              env_clarification := Some True\<rparr>), [])
      else (Some (err_env (''Unknown action: '' @ py_str L action)), []))"

text \<open>The outer \<^verbatim>\<open>except Exception as e\<close> of \<^verbatim>\<open>process_ai_instruction\<close>.\<close>

definition process_failed :: "string \<Rightarrow> dispatch_result" where
  "process_failed e = (Some (err_env (''Failed to process AI instruction: '' @ e)), [])"

text \<open>
  The instruction after parsing: \<^verbatim>\<open>instruction.get\<close> exists on a dictionary only; on
  any other value the attribute lookup raises, and the outer handler answers.
\<close>

definition dispatch :: "pylib \<Rightarrow> handlers \<Rightarrow> json \<Rightarrow> user_id \<Rightarrow> dispatch_result" where
  "dispatch L H instruction uid =
     (case instruction of
        JObj d \<Rightarrow> route L H d uid
      | _ \<Rightarrow> process_failed (attribute_error instruction ''get''))"

text \<open>
  The recovery of lines 940 to 962, entered when the first \<^verbatim>\<open>json.loads\<close> raised a
  \<^verbatim>\<open>JSONDecodeError\<close>: find the first opening brace, scan to the closing brace at which
  the count is zero, and parse that span alone.
\<close>

definition recover :: "pylib \<Rightarrow> handlers \<Rightarrow> string \<Rightarrow> user_id \<Rightarrow> dispatch_result" where
  "recover L H instruction_str uid =
     (case str_find (CHR ''{'') instruction_str of
        None \<Rightarrow>
          (Some (err_env ''Failed to parse instruction JSON: No JSON object found''), [])
      | Some start_pos \<Rightarrow>
          (case scan_braces 0 (drop start_pos instruction_str) of
             None \<Rightarrow>
               (Some (err_env ''Failed to parse instruction JSON: Incomplete JSON object''), [])
           | Some n \<Rightarrow>
               (case json_loads L (take n (drop start_pos instruction_str)) of
                  Loaded instruction \<Rightarrow> dispatch L H instruction uid
                | JSONDecodeError e2 \<Rightarrow>
                    (Some (err_env (''Failed to parse instruction JSON: '' @ e2)), [])
                | OtherError e \<Rightarrow> process_failed e)))"

text \<open>Lines 929 to 1010: the captured substring is repaired, parsed and dispatched.\<close>

definition process_instruction_str :: "pylib \<Rightarrow> handlers \<Rightarrow> string \<Rightarrow> user_id \<Rightarrow> dispatch_result" where
  "process_instruction_str L H captured uid =
     (let instruction_str = clean_json_string captured
      in case json_loads L instruction_str of
           Loaded instruction \<Rightarrow> dispatch L H instruction uid
         | JSONDecodeError e \<Rightarrow> recover L H instruction_str uid
         | OtherError e \<Rightarrow> process_failed e)"

text \<open>\<^verbatim>\<open>process_ai_instruction(ai_response, user_id)\<close>.\<close>

definition process_ai_instruction :: "pylib \<Rightarrow> handlers \<Rightarrow> string \<Rightarrow> user_id \<Rightarrow> dispatch_result" where
  "process_ai_instruction L H ai_response uid =
     (case find_instruction ai_response of
        None \<Rightarrow> (Some (err_env ''No instruction found in AI response''), [])
      | Some captured \<Rightarrow> process_instruction_str L H captured uid)"

section \<open>Notions of the specification\<close>

text \<open>
  The brace depth of a text: opening braces minus closing braces. A span "where the
  depth returns to zero" is a non-empty prefix of depth zero.
\<close>

definition brace_depth :: "string \<Rightarrow> int" where
  "brace_depth s = int (count_list s (CHR ''{'')) - int (count_list s (CHR ''}''))"

text \<open>\<open>d\<close> is a substring of \<open>t\<close>, as the specification words the title match.\<close>

definition is_substring :: "string \<Rightarrow> string \<Rightarrow> bool" where
  "is_substring d t \<longleftrightarrow> (\<exists>before after. t = before @ d @ after)"

text \<open>
  A text has a trailing comma for the closers \<open>cl\<close> when it holds a comma followed by
  optional whitespace and one of \<open>cl\<close>. In a strictly valid JSON text this can only
  happen inside a string literal.
\<close>

fun has_trailing_comma :: "char list \<Rightarrow> string \<Rightarrow> bool" where
  "has_trailing_comma cl [] = False"
| "has_trailing_comma cl (c # cs) = ((c = CHR '','' \<and> closes cl cs) \<or> has_trailing_comma cl cs)"

text \<open>
  \<open>differs_by_trailing_commas s t\<close>: the text \<open>t\<close> is the text \<open>s\<close> with commas
  inserted, each directly in front of the optional whitespace and closing brace or
  bracket it trails.
\<close>

fun differs_by_trailing_commas :: "string \<Rightarrow> string \<Rightarrow> bool" where
  "differs_by_trailing_commas [] [] = True"
| "differs_by_trailing_commas (d # s) [] = False"
| "differs_by_trailing_commas s (c # t) =
     ((c = CHR '','' \<and> closes ''}]'' t \<and> differs_by_trailing_commas s t) \<or>
      (case s of [] \<Rightarrow> False | d # s' \<Rightarrow> d = c \<and> differs_by_trailing_commas s' t))"

section \<open>A sample library\<close>

text \<open>
  The theorems below hold for every behaviour of the library functions. To run the model
  on concrete inputs a library is needed; this one reads the fragment of JSON made of
  objects, arrays, strings with the one-character escapes, integers and the three
  literals, as \<^verbatim>\<open>json.loads\<close> does on that fragment. On other texts (numbers with a
  fraction or an exponent, \<^verbatim>\<open>\u\<close> escapes) it reports an error; it is used on texts of
  the fragment only. The error text is a fixed one.
\<close>

definition json_ws :: "char \<Rightarrow> bool" where
  "json_ws c \<longleftrightarrow> c \<in> set [CHR 0x20, CHR 0x09, CHR 0x0A, CHR 0x0D]"

definition skip_ws :: "string \<Rightarrow> string" where
  "skip_ws s = dropWhile json_ws s"

definition unescape :: "char \<Rightarrow> char option" where
  "unescape e =
     map_of [(CHR 0x22, CHR 0x22), (CHR 0x5C, CHR 0x5C), (CHR ''/'', CHR ''/''),
             (CHR ''b'', CHR 0x08), (CHR ''f'', CHR 0x0C), (CHR ''n'', CHR 0x0A),
             (CHR ''r'', CHR 0x0D), (CHR ''t'', CHR 0x09)] e"

text \<open>The characters of a string literal after its opening quote, and the rest.\<close>

fun parse_string_chars :: "string \<Rightarrow> (string \<times> string) option" where
  "parse_string_chars [] = None"
| "parse_string_chars [c] = (if c = CHR 0x22 then Some ([], []) else None)"
| "parse_string_chars (c # e # r) =
     (if c = CHR 0x22 then Some ([], e # r)
      else if c = CHR 0x5C
      then (case unescape e of
              None \<Rightarrow> None
            | Some x \<Rightarrow> map_option (\<lambda>(s, r'). (x # s, r')) (parse_string_chars r))
      else if (of_char c :: nat) < 32 then None
      else map_option (\<lambda>(s, r'). (c # s, r')) (parse_string_chars (e # r)))"

definition digit_val :: "char \<Rightarrow> nat option" where
  "digit_val c = map_of (zip ''0123456789'' [0 ..< 10]) c"

fun parse_digits :: "nat \<Rightarrow> string \<Rightarrow> nat \<times> string" where
  "parse_digits acc [] = (acc, [])"
| "parse_digits acc (c # cs) =
     (case digit_val c of
        None \<Rightarrow> (acc, c # cs)
      | Some d \<Rightarrow> parse_digits (10 * acc + d) cs)"

text \<open>An integer: \<^verbatim>\<open>-?(0|[1-9][0-9]*)\<close>.\<close>

definition parse_nat :: "string \<Rightarrow> (nat \<times> string) option" where
  "parse_nat s =
     (case s of
        [] \<Rightarrow> None
      | c # cs \<Rightarrow>
          (case digit_val c of
             None \<Rightarrow> None
           | Some d \<Rightarrow> if d = 0 then Some (0, cs) else Some (parse_digits d cs)))"

definition parse_int :: "string \<Rightarrow> (json \<times> string) option" where
  "parse_int s =
     (case s of
        [] \<Rightarrow> None
      | c # cs \<Rightarrow>
          if c = CHR ''-''
          then map_option (\<lambda>(n, r). (JInt (- int n), r)) (parse_nat cs)
          else map_option (\<lambda>(n, r). (JInt (int n), r)) (parse_nat (c # cs)))"

text \<open>\<^verbatim>\<open>d[k] = v\<close>: a repeated key keeps its place and takes the last value.\<close>

fun dict_set :: "string \<Rightarrow> json \<Rightarrow> pydict \<Rightarrow> pydict" where
  "dict_set k v [] = [(k, v)]"
| "dict_set k v ((k', v') # r) = (if k = k' then (k, v) # r else (k', v') # dict_set k v r)"

text \<open>
  A value; the elements of an array after its opening bracket; the members of an object
  after its opening brace. The first argument bounds the depth of the calls.
\<close>

fun parse_value :: "nat \<Rightarrow> string \<Rightarrow> (json \<times> string) option"
  and parse_elements :: "nat \<Rightarrow> json list \<Rightarrow> string \<Rightarrow> (json \<times> string) option"
  and parse_members :: "nat \<Rightarrow> pydict \<Rightarrow> string \<Rightarrow> (json \<times> string) option"
where
  "parse_value 0 s = None"
| "parse_value (Suc n) s =
     (case skip_ws s of
        [] \<Rightarrow> None
      | c # r \<Rightarrow>
          if c = CHR ''{''
          then (case skip_ws r of
                  [] \<Rightarrow> None
                | c2 # r2 \<Rightarrow>
                    if c2 = CHR ''}'' then Some (JObj [], r2) else parse_members n [] (c2 # r2))
          else if c = CHR ''[''
          then (case skip_ws r of
                  [] \<Rightarrow> None
                | c2 # r2 \<Rightarrow>
                    if c2 = CHR '']'' then Some (JArr [], r2) else parse_elements n [] (c2 # r2))
          else if c = CHR 0x22 then map_option (\<lambda>(s, r'). (JStr s, r')) (parse_string_chars r)
          else if starts_with ''true'' (c # r) then Some (JBool True, drop 4 (c # r))
          else if starts_with ''false'' (c # r) then Some (JBool False, drop 5 (c # r))
          else if starts_with ''null'' (c # r) then Some (JNull, drop 4 (c # r))
          else parse_int (c # r))"
| "parse_elements 0 acc s = None"
| "parse_elements (Suc n) acc s =
     (case parse_value n s of
        None \<Rightarrow> None
      | Some (v, r) \<Rightarrow>
          (case skip_ws r of
             [] \<Rightarrow> None
           | c # r2 \<Rightarrow>
               if c = CHR '','' then parse_elements n (acc @ [v]) r2
               else if c = CHR '']'' then Some (JArr (acc @ [v]), r2)
               else None))"
| "parse_members 0 acc s = None"
| "parse_members (Suc n) acc s =
     (case skip_ws s of
        [] \<Rightarrow> None
      | c # r \<Rightarrow>
          if c = CHR 0x22
          then (case parse_string_chars r of
                  None \<Rightarrow> None
                | Some (k, r1) \<Rightarrow>
                    (case skip_ws r1 of
                       [] \<Rightarrow> None
                     | c1 # r2 \<Rightarrow>
                         if c1 = CHR '':''
                         then (case parse_value n r2 of
                                 None \<Rightarrow> None
                               | Some (v, r3) \<Rightarrow>
                                   (case skip_ws r3 of
                                      [] \<Rightarrow> None
                                    | c3 # r4 \<Rightarrow>
                                        if c3 = CHR '',''
                                        then parse_members n (dict_set k v acc) r4
                                        else if c3 = CHR ''}''
                                        then Some (JObj (dict_set k v acc), r4)
                                        else None))
                         else None))
          else None)"

definition sample_loads :: "string \<Rightarrow> loads_result" where
  "sample_loads s =
     (case parse_value (Suc (length s)) s of
        None \<Rightarrow> JSONDecodeError ''invalid JSON''
      | Some (v, r) \<Rightarrow> if skip_ws r = [] then Loaded v else JSONDecodeError ''Extra data'')"

text \<open>
  Two timestamps, as \<^verbatim>\<open>datetime.fromisoformat\<close> reads them; any other text is reported
  as invalid.
\<close>

definition sample_fromisoformat :: "string \<Rightarrow> string + datetime" where
  "sample_fromisoformat s =
     (if s = ''2025-06-27T17:00:00''
      then Inr \<lparr>dt_year = 2025, dt_month = 6, dt_day = 27, dt_hour = 17, dt_minute = 0,
                dt_second = 0, dt_microsecond = 0, dt_utcoffset = None\<rparr>
      else if s = ''2025-06-27T17:30:00''
      then Inr \<lparr>dt_year = 2025, dt_month = 6, dt_day = 27, dt_hour = 17, dt_minute = 30,
                dt_second = 0, dt_microsecond = 0, dt_utcoffset = None\<rparr>
      else if s = ''2025-06-28T09:00:00''
      then Inr \<lparr>dt_year = 2025, dt_month = 6, dt_day = 28, dt_hour = 9, dt_minute = 0,
                dt_second = 0, dt_microsecond = 0, dt_utcoffset = None\<rparr>
      else Inl (''Invalid isoformat string: '' @ [squote] @ s @ [squote]))"

definition sample_lib :: pylib where
  "sample_lib =
     \<lparr>json_loads = sample_loads,
      fromisoformat = sample_fromisoformat,
      py_repr = (\<lambda>x. case x of JInt i \<Rightarrow> (if i < 0 then ''-'' else '''') @ str_of_nat (nat \<bar>i\<bar>)
                              | _ \<Rightarrow> ''...'')\<rparr>"

text \<open>
  Handlers for running the dispatcher: the two update handlers are the ones of the
  source (a single \<^verbatim>\<open>return\<close>); the others answer with a fixed dictionary and make
  one provider call, so that a call shows in the result.
\<close>

definition sample_handlers :: handlers where
  "sample_handlers =
     \<lparr>create_calendar_event_from_instruction =
        (\<lambda>i u. (empty_env\<lparr>env_success := Some True\<rparr>, [EventsList [] []])),
      create_task_from_instruction =
        (\<lambda>i u. (empty_env\<lparr>env_success := Some True\<rparr>, [TasklistsList])),
      update_calendar_event_from_instruction =
        (\<lambda>i u. (err_env ''Event update requires event ID - not implemented yet'', [])),
      update_task_from_instruction =
        (\<lambda>i u. (err_env ''Task update requires task ID - not implemented yet'', [])),
      delete_calendar_event_from_instruction =
        (\<lambda>i u. (empty_env\<lparr>env_success := Some True\<rparr>, [EventsList [] []])),
      delete_task_from_instruction =
        (\<lambda>i u. (empty_env\<lparr>env_success := Some True\<rparr>, [TasklistsList])),
      find_and_delete_calendar_event_handler =
        (\<lambda>i u. (empty_env\<lparr>env_success := Some True\<rparr>, [EventsList [] []])),
      find_and_delete_task_handler =
        (\<lambda>i u. (empty_env\<lparr>env_success := Some True\<rparr>, [TasklistsList])),
      query_calendar_events_from_instruction =
        (\<lambda>i u. (empty_env\<lparr>env_success := Some True\<rparr>, [EventsList [] []])),
      query_tasks_from_instruction =
        (\<lambda>i u. (empty_env\<lparr>env_success := Some True\<rparr>, [TasklistsList]))\<rparr>"

text \<open>A text between double quotes, for writing JSON texts.\<close>

definition q :: "string \<Rightarrow> string" where
  "q s = CHR 0x22 # s @ [CHR 0x22]"

text \<open>A reply of the completion model whose instruction has a routed action and an item
  type that is neither \<^verbatim>\<open>event\<close> nor \<^verbatim>\<open>task\<close>.\<close>

definition reminder_captured :: string where
  "reminder_captured =
     ''{'' @ q ''action'' @ '': '' @ q ''create'' @ '', ''
       @ q ''item_type'' @ '': '' @ q ''reminder'' @ ''}''"

definition reminder_response :: string where
  "reminder_response = ''instruction: '' @ reminder_captured"

definition reminder_instruction :: pydict where
  "reminder_instruction = [(''action'', JStr ''create''), (''item_type'', JStr ''reminder'')]"

text \<open>Two clarification instructions that differ in their \<^verbatim>\<open>missing_fields\<close> only.\<close>

definition clarify_date :: pydict where
  "clarify_date =
     [(''action'', JStr ''clarification_needed''), (''item_type'', JNull),
      (''missing_fields'', JArr [JStr ''date''])]"

definition clarify_time :: pydict where
  "clarify_time =
     [(''action'', JStr ''clarification_needed''), (''item_type'', JNull),
      (''missing_fields'', JArr [JStr ''time''])]"

text \<open>
  "The first span where the depth returns to zero", for a text \<open>t\<close> that starts at the
  first opening brace: its first \<open>n\<close> characters, where \<open>n\<close> is the least positive
  length at which the brace depth is zero.
\<close>

definition first_balanced_span :: "string \<Rightarrow> nat \<Rightarrow> bool" where
  "first_balanced_span t n \<longleftrightarrow>
     0 < n \<and> n \<le> length t \<and> brace_depth (take n t) = 0 \<and>
     (\<forall>m \<in> {1 ..< n}. brace_depth (take m t) \<noteq> 0)"

text \<open>A captured substring with text after the instruction object, and its first object.\<close>

definition greeting_captured :: string where
  "greeting_captured =
     ''{'' @ q ''action'' @ '': '' @ q ''greeting'' @ ''} userReply: '' @ q ''Hi {name}''"

definition greeting_object :: string where
  "greeting_object = ''{'' @ q ''action'' @ '': '' @ q ''greeting'' @ ''}''"

text \<open>A text with a trailing comma in its array and one in its object, within
  surrounding whitespace, and the same text without the two commas.\<close>

definition trailing_text :: string where
  "trailing_text =
     ''  {'' @ q ''action'' @ '': '' @ q ''greeting'' @ '', '' @ q ''n'' @ '': [1, 2, ],}  ''"

definition trailing_strict :: string where
  "trailing_strict =
     ''  {'' @ q ''action'' @ '': '' @ q ''greeting'' @ '', '' @ q ''n'' @ '': [1, 2 ]}  ''"

definition trailing_repaired :: string where
  "trailing_repaired =
     ''{'' @ q ''action'' @ '': '' @ q ''greeting'' @ '', '' @ q ''n'' @ '': [1, 2 ]}''"

text \<open>A strictly valid instruction text whose title holds a comma followed by a closing
  bracket.\<close>

definition comma_title_strict :: string where
  "comma_title_strict =
     ''{'' @ q ''action'' @ '': '' @ q ''create'' @ '', '' @ q ''item_type'' @ '': ''
       @ q ''task'' @ '', '' @ q ''title'' @ '': '' @ q ''buy [milk, eggs,]'' @ ''}''"

text \<open>That rendering, within surrounding whitespace.\<close>

definition comma_title_text :: string where
  "comma_title_text = '' '' @ comma_title_strict @ '' ''"

section \<open>Dates and times\<close>

text \<open>
  The arithmetic of \<^verbatim>\<open>datetime\<close> that the source uses: the difference of two objects
  and three \<^verbatim>\<open>strftime\<close> formats. The ordinal of a date is the one of the library:
  day 1 is 0001-01-01.
\<close>

definition is_leap :: "nat \<Rightarrow> bool" where
  "is_leap y = (if y mod 4 = 0 then (if y mod 100 = 0 then y mod 400 = 0 else True) else False)"

definition days_before_year :: "nat \<Rightarrow> int" where
  "days_before_year year =
     (let y = int year - 1 in y * 365 + y div 4 - y div 100 + y div 400)"

definition days_before_month :: "nat \<Rightarrow> nat \<Rightarrow> int" where
  "days_before_month year month =
     int ([0, 0, 31, 59, 90, 120, 151, 181, 212, 243, 273, 304, 334] ! month)
       + (if month > 2 \<and> is_leap year then 1 else 0)"

definition ymd2ord :: "nat \<Rightarrow> nat \<Rightarrow> nat \<Rightarrow> int" where
  "ymd2ord year month day = days_before_year year + days_before_month year month + int day"

text \<open>The wall-clock reading of an object, in microseconds.\<close>

definition wall_microseconds :: "datetime \<Rightarrow> int" where
  "wall_microseconds d =
     (((ymd2ord (dt_year d) (dt_month d) (dt_day d) * 24 + int (dt_hour d)) * 60
         + int (dt_minute d)) * 60 + int (dt_second d)) * 1000000
       + int (dt_microsecond d)"

text \<open>
  \<^verbatim>\<open>a - b\<close>, as a number of microseconds: two naive objects give the difference of
  their readings, two aware objects the difference of their instants, and a naive and
  an aware object raise \<^verbatim>\<open>TypeError\<close>.
\<close>

definition dt_sub :: "datetime \<Rightarrow> datetime \<Rightarrow> string + int" where
  "dt_sub a b =
     (case dt_utcoffset a of
        None \<Rightarrow>
          (case dt_utcoffset b of
             None \<Rightarrow> Inr (wall_microseconds a - wall_microseconds b)
           | Some ob \<Rightarrow>
               Inl (''can'' @ [squote] @ ''t subtract offset-naive and offset-aware datetimes''))
      | Some oa \<Rightarrow>
          (case dt_utcoffset b of
             None \<Rightarrow>
               Inl (''can'' @ [squote] @ ''t subtract offset-naive and offset-aware datetimes'')
           | Some ob \<Rightarrow> Inr ((wall_microseconds a - oa) - (wall_microseconds b - ob))))"

text \<open>
  \<^verbatim>\<open>abs(td.total_seconds()) <= 3600\<close> for a difference of \<open>us\<close> microseconds. The
  float \<^verbatim>\<open>total_seconds()\<close> is the correctly rounded quotient by \<open>10\<^sup>6\<close>, and 3600 is a
  float, so the comparison holds exactly when the difference is at most 3600 seconds.
\<close>

definition within_one_hour :: "int \<Rightarrow> bool" where
  "within_one_hour us \<longleftrightarrow> \<bar>us\<bar> \<le> 3600 * 1000000"

definition pad2 :: "nat \<Rightarrow> string" where
  "pad2 n = (if n < 10 then ''0'' else []) @ str_of_nat n"

text \<open>\<^verbatim>\<open>strftime('%H:%M')\<close>\<close>

definition strftime_HM :: "datetime \<Rightarrow> string" where
  "strftime_HM d = pad2 (dt_hour d) @ '':'' @ pad2 (dt_minute d)"

text \<open>\<^verbatim>\<open>strftime('%m/%d/%Y')\<close>, for a year of four digits.\<close>

definition strftime_mdY :: "datetime \<Rightarrow> string" where
  "strftime_mdY d =
     pad2 (dt_month d) @ ''/'' @ pad2 (dt_day d) @ ''/'' @ str_of_nat (dt_year d)"

text \<open>\<^verbatim>\<open>strftime('%m/%d/%Y at %I:%M %p')\<close>, in the C locale.\<close>

definition strftime_mdY_at_IMp :: "datetime \<Rightarrow> string" where
  "strftime_mdY_at_IMp d =
     strftime_mdY d @ '' at ''
       @ pad2 (if dt_hour d mod 12 = 0 then 12 else dt_hour d mod 12) @ '':''
       @ pad2 (dt_minute d) @ '' '' @ (if dt_hour d < 12 then ''AM'' else ''PM'')"

section \<open>The messages\<close>

text \<open>
  The decorations in front of the messages are not ASCII; they are given by the bytes
  they have in the source file.
\<close>

definition bullet :: string where
  "bullet = [CHR 0xE2, CHR 0x80, CHR 0x9A, CHR 0xC3, CHR 0x84, CHR 0xC2, CHR 0xA2]"

definition cross_mark :: string where
  "cross_mark = [CHR 0xE2, CHR 0x80, CHR 0x9A, CHR 0xC3, CHR 0xB9, CHR 0xC3, CHR 0xA5]"

definition check_mark :: string where
  "check_mark = [CHR 0xE2, CHR 0x80, CHR 0x9A, CHR 0xC3, CHR 0xBA, CHR 0xC3, CHR 0x96]"

definition magnifier_mark :: string where
  "magnifier_mark =
     [CHR 0xEF, CHR 0xA3, CHR 0xBF, CHR 0xC3, CHR 0xBC, CHR 0xC3, CHR 0xAE, CHR 0xC3, CHR 0xA7]"

definition clipboard_mark :: string where
  "clipboard_mark =
     [CHR 0xEF, CHR 0xA3, CHR 0xBF, CHR 0xC3, CHR 0xBC, CHR 0xC3, CHR 0xAC, CHR 0xC3, CHR 0xA3]"

definition calendar_mark :: string where
  "calendar_mark =
     [CHR 0xEF, CHR 0xA3, CHR 0xBF, CHR 0xC3, CHR 0xBC, CHR 0xC3, CHR 0xAC, CHR 0xC3, CHR 0x96]"

definition nl :: string where
  "nl = [CHR 0x0A]"

text \<open>A text between single quotes.\<close>

definition sq :: "string \<Rightarrow> string" where
  "sq s = squote # s @ [squote]"

text \<open>\<^verbatim>\<open>'\n'.join(lines)\<close>\<close>

fun join_lines :: "string list \<Rightarrow> string" where
  "join_lines [] = []"
| "join_lines [l] = l"
| "join_lines (l # m # ls) = l @ nl @ join_lines (m # ls)"

text \<open>A loop that builds a list item by item and stops at the first exception.\<close>

fun collect :: "('a \<Rightarrow> string + 'b) \<Rightarrow> 'a list \<Rightarrow> string + 'b list" where
  "collect f [] = Inr []"
| "collect f (x # xs) =
     (case f x of
        Inl e \<Rightarrow> Inl e
      | Inr y \<Rightarrow> (case collect f xs of Inl e \<Rightarrow> Inl e | Inr ys \<Rightarrow> Inr (y # ys)))"

text \<open>A value read with \<^verbatim>\<open>.get(key)\<close> and tested with \<^verbatim>\<open>if value:\<close>: a missing or
  empty string does not pass.\<close>

definition nonempty :: "string option \<Rightarrow> string option" where
  "nonempty v = (case v of None \<Rightarrow> None | Some s \<Rightarrow> if s = [] then None else Some s)"

text \<open>\<^verbatim>\<open>x.lower()\<close> and \<^verbatim>\<open>x.replace('Z', '+00:00')\<close> on a value of the instruction:
  only a string has these methods.\<close>

definition lower_method :: "json \<Rightarrow> string + string" where
  "lower_method x = (case x of JStr s \<Rightarrow> Inr (lower s) | _ \<Rightarrow> Inl (attribute_error x ''lower''))"

definition replace_Z_method :: "json \<Rightarrow> string + string" where
  "replace_Z_method x =
     (case x of
        JStr s \<Rightarrow> Inr (str_replace ''Z'' ''+00:00'' s)
      | _ \<Rightarrow> Inl (attribute_error x ''replace''))"

section \<open>Delete by description: tasks\<close>

text \<open>
  What the task service answers. \<open>get_tasks_service\<close> is the error text of
  \<^verbatim>\<open>get_tasks_service(user_id)\<close>, \<open>None\<close> when the service was obtained (the error texts
  of the source are never empty). \<open>tasklists_list\<close> is the list of the ids of the task
  lists, \<open>tasks_list\<close> the items of a task list (\<^verbatim>\<open>tasks_result.get('items', [])\<close>);
  \<open>Inl\<close> is the text of the exception raised while getting them. \<open>tasks_delete\<close> is the
  text of the exception the delete call raises, \<open>None\<close> when it succeeds.
\<close>

record tasks_api =
  get_tasks_service :: "user_id \<Rightarrow> string option"
  tasklists_list :: "string + string list"
  tasks_list :: "string \<Rightarrow> string + task list"
  tasks_delete :: "string \<Rightarrow> string \<Rightarrow> string option"

text \<open>\<^verbatim>\<open>tasklists['items'][0]['id'] if tasklists['items'] else '@default'\<close>\<close>

definition first_tasklist_id :: "string list \<Rightarrow> string" where
  "first_tasklist_id ids = (case ids of [] \<Rightarrow> ''@default'' | i # _ \<Rightarrow> i)"

text \<open>The condition of line 1394 for one task.\<close>

definition task_title_matches :: "string \<Rightarrow> task \<Rightarrow> bool" where
  "task_title_matches search_description t =
     (let task_title = lower (case task_title t of None \<Rightarrow> [] | Some s \<Rightarrow> s)
      in py_in search_description task_title \<or> py_in task_title search_description)"

text \<open>One line of the list of tasks shown to the user.\<close>

definition format_task :: "pylib \<Rightarrow> task \<Rightarrow> string + string" where
  "format_task L t =
     (let title = (case task_title t of None \<Rightarrow> ''Untitled Task'' | Some s \<Rightarrow> s)
      in case nonempty (task_due t) of
           Some due_date \<Rightarrow>
             (case fromisoformat L (str_replace ''Z'' ''+00:00'' due_date) of
                Inl e \<Rightarrow> Inl e
              | Inr due_date_obj \<Rightarrow>
                  Inr (bullet @ '' '' @ title @ '' (Due: '' @ strftime_mdY due_date_obj @ '')''))
         | None \<Rightarrow> Inr (bullet @ '' '' @ title @ '' (Due: No due date)''))"

text \<open>The \<^verbatim>\<open>except Exception as e\<close> of \<^verbatim>\<open>find_and_delete_task_from_instruction\<close>.\<close>

definition task_failed :: "string \<Rightarrow> envelope" where
  "task_failed e = err_env (''Failed to find and delete task: '' @ e)"

text \<open>Lines 1387 to 1452: the tasks are listed and not empty.\<close>

definition resolve_task ::
  "pylib \<Rightarrow> tasks_api \<Rightarrow> pydict \<Rightarrow> string \<Rightarrow> task list \<Rightarrow> call list \<Rightarrow> envelope \<times> call list"
where
  "resolve_task L W instruction tasklist_id tasks calls =
     (case lower_method (dict_get instruction ''title'' (JStr [])) of
        Inl e \<Rightarrow> (task_failed e, calls)
      | Inr search_description \<Rightarrow>
          (let matching_tasks = filter (task_title_matches search_description) tasks
           in case matching_tasks of
                [] \<Rightarrow>
                  (case collect (format_task L) tasks of
                     Inl e \<Rightarrow> (task_failed e, calls)
                   | Inr task_list \<Rightarrow>
                       (empty_env
                          \<lparr>env_success := Some True,
                           env_message := Some (''No tasks found matching ''
                             @ sq search_description @ ''. Here are all your tasks:''),
                           env_tasks := Some tasks,
                           env_formatted_response := Some (cross_mark
                             @ '' **No matching tasks found**'' @ nl @ nl
                             @ ''I couldn'' @ [squote] @ ''t find any tasks matching ''
                             @ sq search_description @ ''. Here are all your tasks:''
                             @ nl @ nl @ join_lines task_list @ nl @ nl
                             @ ''Please specify which task you'' @ [squote]
                             @ ''d like to delete.'')\<rparr>,
                        calls))
              | [task_to_delete] \<Rightarrow>
                  (let title = (case task_title task_to_delete of
                                  None \<Rightarrow> ''Untitled Task'' | Some s \<Rightarrow> s);
                       calls' = calls @ [TasksDelete tasklist_id (task_id task_to_delete)]
                   in case tasks_delete W tasklist_id (task_id task_to_delete) of
                        Some e \<Rightarrow> (task_failed e, calls')
                      | None \<Rightarrow>
                          (empty_env
                             \<lparr>env_success := Some True,
                              env_message := Some (''Task '' @ sq title
                                @ '' deleted successfully.''),
                              env_formatted_response := Some (check_mark
                                @ '' **Task Deleted**'' @ nl @ nl
                                @ ''Successfully deleted: '' @ title)\<rparr>,
                           calls'))
              | _ \<Rightarrow>
                  (case collect (format_task L) matching_tasks of
                     Inl e \<Rightarrow> (task_failed e, calls)
                   | Inr task_list \<Rightarrow>
                       (empty_env
                          \<lparr>env_success := Some True,
                           env_message := Some (''Found ''
                             @ str_of_nat (length matching_tasks) @ '' tasks matching ''
                             @ sq search_description
                             @ ''. Please specify which one to delete:''),
                           env_tasks := Some matching_tasks,
                           env_formatted_response := Some (magnifier_mark
                             @ '' **Multiple matches found**'' @ nl @ nl @ ''Found ''
                             @ str_of_nat (length matching_tasks) @ '' tasks matching ''
                             @ sq search_description @ '':'' @ nl @ nl
                             @ join_lines task_list @ nl @ nl
                             @ ''Please specify which task you'' @ [squote]
                             @ ''d like to delete by providing more details.'')\<rparr>,
                        calls))))"

text \<open>\<^verbatim>\<open>find_and_delete_task_from_instruction(instruction, user_id)\<close>\<close>

definition find_and_delete_task_from_instruction ::
  "pylib \<Rightarrow> tasks_api \<Rightarrow> pydict \<Rightarrow> user_id \<Rightarrow> envelope \<times> call list"
where
  "find_and_delete_task_from_instruction L W instruction uid =
     (case get_tasks_service W uid of
        Some error \<Rightarrow> (err_env error, [])
      | None \<Rightarrow>
          (case tasklists_list W of
             Inl e \<Rightarrow> (task_failed e, [TasklistsList])
           | Inr ids \<Rightarrow>
               (let tasklist_id = first_tasklist_id ids;
                    calls = [TasklistsList, TasksList tasklist_id]
                in case tasks_list W tasklist_id of
                     Inl e \<Rightarrow> (task_failed e, calls)
                   | Inr tasks \<Rightarrow>
                       if tasks = []
                       then (empty_env
                               \<lparr>env_success := Some True,
                                env_message := Some ''No tasks found to delete.'',
                                env_formatted_response := Some (clipboard_mark
                                  @ '' **No tasks found**'' @ nl @ nl
                                  @ ''There are no tasks available to delete.'')\<rparr>,
                             calls)
                       else resolve_task L W instruction tasklist_id tasks calls)))"

section \<open>Delete by description: events\<close>

text \<open>
  What the calendar service answers, as for tasks. \<open>utcnow_isoformat\<close> and
  \<open>utcnow_plus_30_days_isoformat\<close> are the two clock readings that bound the listing;
  \<open>events_list\<close> takes \<^verbatim>\<open>timeMin\<close> and \<^verbatim>\<open>timeMax\<close> and gives
  \<^verbatim>\<open>events_result.get('items', [])\<close>; \<open>events_delete\<close> takes the event id.
\<close>

record events_api =
  get_calendar_service :: "user_id \<Rightarrow> string option"
  utcnow_isoformat :: string
  utcnow_plus_30_days_isoformat :: string
  events_list :: "string \<Rightarrow> string \<Rightarrow> string + event list"
  events_delete :: "string \<Rightarrow> string option"

text \<open>\<open>title_matches\<close> of line 1500.\<close>

definition event_title_matches :: "string \<Rightarrow> event \<Rightarrow> bool" where
  "event_title_matches search_description ev =
     (let event_title = lower (case event_summary ev of None \<Rightarrow> [] | Some s \<Rightarrow> s)
      in py_in search_description event_title \<or> py_in event_title search_description)"

text \<open>
  \<open>date_matches\<close> of lines 1508 to 1535, for an event whose title matches; \<open>Inl\<close> is
  the text of the exception raised on the way. The three arguments after the library are
  \<^verbatim>\<open>instruction.get('date')\<close>, \<^verbatim>\<open>instruction.get('datetime_start')\<close> and
  \<^verbatim>\<open>instruction.get('time')\<close>.
\<close>

definition date_matches :: "pylib \<Rightarrow> json \<Rightarrow> json \<Rightarrow> json \<Rightarrow> event \<Rightarrow> string + bool" where
  "date_matches L instruction_date instruction_datetime_start instruction_time ev =
     (if truthy instruction_date
      then (case nonempty (event_date ev) of
              Some ev_date \<Rightarrow> Inr (JStr ev_date = instruction_date)
            | None \<Rightarrow>
                (case nonempty (event_dateTime ev) of
                   Some ev_datetime \<Rightarrow> Inr (JStr (split_T_first ev_datetime) = instruction_date)
                 | None \<Rightarrow> Inr True))
      else if truthy instruction_datetime_start
      then (case nonempty (event_dateTime ev) of
              Some ev_datetime \<Rightarrow>
                (case fromisoformat L (str_replace ''Z'' ''+00:00'' ev_datetime) of
                   Inl e \<Rightarrow> Inl e
                 | Inr event_dt \<Rightarrow>
                     (case replace_Z_method instruction_datetime_start of
                        Inl e \<Rightarrow> Inl e
                      | Inr s \<Rightarrow>
                          (case fromisoformat L s of
                             Inl e \<Rightarrow> Inl e
                           | Inr instruction_dt \<Rightarrow>
                               (case dt_sub event_dt instruction_dt of
                                  Inl e \<Rightarrow> Inl e
                                | Inr time_diff \<Rightarrow> Inr (within_one_hour time_diff)))))
            | None \<Rightarrow> Inr True)
      else if truthy instruction_time
      then (case nonempty (event_dateTime ev) of
              Some ev_datetime \<Rightarrow>
                (case fromisoformat L (str_replace ''Z'' ''+00:00'' ev_datetime) of
                   Inl e \<Rightarrow> Inl e
                 | Inr event_dt \<Rightarrow> Inr (JStr (strftime_HM event_dt) = instruction_time))
            | None \<Rightarrow> Inr True)
      else Inr True)"

text \<open>The loop of lines 1497 to 1538: \<open>matching_events\<close>, or the exception that ends it.\<close>

fun matching_events_loop ::
  "pylib \<Rightarrow> string \<Rightarrow> json \<Rightarrow> json \<Rightarrow> json \<Rightarrow> event list \<Rightarrow> string + event list"
where
  "matching_events_loop L search_description i_date i_datetime_start i_time [] = Inr []"
| "matching_events_loop L search_description i_date i_datetime_start i_time (ev # evs) =
     (if event_title_matches search_description ev
      then (case date_matches L i_date i_datetime_start i_time ev of
              Inl e \<Rightarrow> Inl e
            | Inr matches \<Rightarrow>
                (case matching_events_loop L search_description i_date i_datetime_start
                        i_time evs of
                   Inl e \<Rightarrow> Inl e
                 | Inr rest \<Rightarrow> Inr (if matches then ev # rest else rest)))
      else matching_events_loop L search_description i_date i_datetime_start i_time evs)"

text \<open>One line of the list of events shown to the user.\<close>

definition format_event :: "pylib \<Rightarrow> event \<Rightarrow> string + string" where
  "format_event L ev =
     (let summary = (case event_summary ev of None \<Rightarrow> ''Untitled Event'' | Some s \<Rightarrow> s)
      in case nonempty (event_dateTime ev) of
           Some ev_datetime \<Rightarrow>
             (case fromisoformat L (str_replace ''Z'' ''+00:00'' ev_datetime) of
                Inl e \<Rightarrow> Inl e
              | Inr start_time \<Rightarrow>
                  Inr (bullet @ '' '' @ summary @ '' ('' @ strftime_mdY_at_IMp start_time @ '')''))
         | None \<Rightarrow>
             (case nonempty (event_date ev) of
                Some ev_date \<Rightarrow>
                  (case fromisoformat L ev_date of
                     Inl e \<Rightarrow> Inl e
                   | Inr start_date_obj \<Rightarrow>
                       Inr (bullet @ '' '' @ summary @ '' (All day - ''
                              @ strftime_mdY start_date_obj @ '')''))
              | None \<Rightarrow> Inr (bullet @ '' '' @ summary @ '' (No date specified)'')))"

text \<open>The \<^verbatim>\<open>except Exception as e\<close> of
  \<^verbatim>\<open>find_and_delete_calendar_event_from_instruction\<close>.\<close>

definition event_failed :: "string \<Rightarrow> envelope" where
  "event_failed e = err_env (''Failed to find and delete calendar event: '' @ e)"

text \<open>Lines 1540 to 1604: the outcome for the events found by the loop.\<close>

definition event_outcome ::
  "pylib \<Rightarrow> events_api \<Rightarrow> string \<Rightarrow> event list \<Rightarrow> event list \<Rightarrow> call list
     \<Rightarrow> envelope \<times> call list"
where
  "event_outcome L W search_description events matching_events calls =
     (case matching_events of
        [] \<Rightarrow>
          (case collect (format_event L) events of
             Inl e \<Rightarrow> (event_failed e, calls)
           | Inr event_list \<Rightarrow>
               (empty_env
                  \<lparr>env_success := Some True,
                   env_message := Some (''No events found matching ''
                     @ sq search_description @ ''. Here are all your events:''),
                   env_events := Some events,
                   env_formatted_response := Some (cross_mark
                     @ '' **No matching events found**'' @ nl @ nl
                     @ ''I couldn'' @ [squote] @ ''t find any events matching ''
                     @ sq search_description @ ''. Here are your upcoming events:''
                     @ nl @ nl @ join_lines event_list @ nl @ nl
                     @ ''Please specify which event you'' @ [squote]
                     @ ''d like to delete.'')\<rparr>,
                calls))
      | [event_to_delete] \<Rightarrow>
          (let title = (case event_summary event_to_delete of
                          None \<Rightarrow> ''Untitled Event'' | Some s \<Rightarrow> s);
               calls' = calls @ [EventsDelete (event_id event_to_delete)]
           in case events_delete W (event_id event_to_delete) of
                Some e \<Rightarrow> (event_failed e, calls')
              | None \<Rightarrow>
                  (empty_env
                     \<lparr>env_success := Some True,
                      env_message := Some (''Event '' @ sq title @ '' deleted successfully.''),
                      env_formatted_response := Some (check_mark
                        @ '' **Event Deleted**'' @ nl @ nl
                        @ ''Successfully deleted: '' @ title)\<rparr>,
                   calls'))
      | _ \<Rightarrow>
          (case collect (format_event L) matching_events of
             Inl e \<Rightarrow> (event_failed e, calls)
           | Inr event_list \<Rightarrow>
               (empty_env
                  \<lparr>env_success := Some True,
                   env_message := Some (''Found ''
                     @ str_of_nat (length matching_events) @ '' events matching ''
                     @ sq search_description @ ''. Please specify which one to delete:''),
                   env_events := Some matching_events,
                   env_formatted_response := Some (magnifier_mark
                     @ '' **Multiple matches found**'' @ nl @ nl @ ''Found ''
                     @ str_of_nat (length matching_events) @ '' events matching ''
                     @ sq search_description @ '':'' @ nl @ nl
                     @ join_lines event_list @ nl @ nl
                     @ ''Please specify which event you'' @ [squote]
                     @ ''d like to delete by providing more details.'')\<rparr>,
                calls)))"

text \<open>Lines 1488 to 1604: the events are listed and not empty.\<close>

definition resolve_event ::
  "pylib \<Rightarrow> events_api \<Rightarrow> pydict \<Rightarrow> event list \<Rightarrow> call list \<Rightarrow> envelope \<times> call list"
where
  "resolve_event L W instruction events calls =
     (case lower_method (dict_get instruction ''title'' (JStr [])) of
        Inl e \<Rightarrow> (event_failed e, calls)
      | Inr search_description \<Rightarrow>
          (case matching_events_loop L search_description
                  (dict_get instruction ''date'' JNull)
                  (dict_get instruction ''datetime_start'' JNull)
                  (dict_get instruction ''time'' JNull) events of
             Inl e \<Rightarrow> (event_failed e, calls)
           | Inr matching_events \<Rightarrow>
               event_outcome L W search_description events matching_events calls))"

text \<open>\<^verbatim>\<open>find_and_delete_calendar_event_from_instruction(instruction, user_id)\<close>\<close>

definition find_and_delete_calendar_event_from_instruction ::
  "pylib \<Rightarrow> events_api \<Rightarrow> pydict \<Rightarrow> user_id \<Rightarrow> envelope \<times> call list"
where
  "find_and_delete_calendar_event_from_instruction L W instruction uid =
     (case get_calendar_service W uid of
        Some error \<Rightarrow> (err_env error, [])
      | None \<Rightarrow>
          (let time_min = utcnow_isoformat W @ ''Z'';
               time_max = utcnow_plus_30_days_isoformat W @ ''Z'';
               calls = [EventsList time_min time_max]
           in case events_list W time_min time_max of
                Inl e \<Rightarrow> (event_failed e, calls)
              | Inr events \<Rightarrow>
                  if events = []
                  then (empty_env
                          \<lparr>env_success := Some True,
                           env_message := Some ''No events found to delete.'',
                           env_formatted_response := Some (calendar_mark
                             @ '' **No events found**'' @ nl @ nl
                             @ ''There are no events available to delete.'')\<rparr>,
                        calls)
                  else resolve_event L W instruction events calls))"

section \<open>Sample candidates and providers\<close>

text \<open>A task service and a calendar service that list the given candidates and accept
  every delete call.\<close>

definition sample_tasks_api :: "task list \<Rightarrow> tasks_api" where
  "sample_tasks_api tasks =
     \<lparr>get_tasks_service = (\<lambda>u. None),
      tasklists_list = Inr [''list1''],
      tasks_list = (\<lambda>tasklist. Inr tasks),
      tasks_delete = (\<lambda>tasklist t. None)\<rparr>"

definition sample_events_api :: "event list \<Rightarrow> events_api" where
  "sample_events_api events =
     \<lparr>get_calendar_service = (\<lambda>u. None),
      utcnow_isoformat = ''2025-06-26T08:00:00'',
      utcnow_plus_30_days_isoformat = ''2025-07-26T08:00:00'',
      events_list = (\<lambda>time_min time_max. Inr events),
      events_delete = (\<lambda>e. None)\<rparr>"

text \<open>The two candidates of the specification's example, as tasks and as events, and an
  instruction whose description is "dentist".\<close>

definition dentist_tasks :: "task list" where
  "dentist_tasks =
     [\<lparr>task_id = ''t1'', task_title = Some ''Dentist appointment'', task_due = None\<rparr>,
      \<lparr>task_id = ''t2'', task_title = Some ''Dentist follow-up'', task_due = None\<rparr>]"

definition dentist_events :: "event list" where
  "dentist_events =
     [\<lparr>event_id = ''e1'', event_summary = Some ''Dentist appointment'',
       event_dateTime = Some ''2025-06-27T17:00:00'', event_date = None\<rparr>,
      \<lparr>event_id = ''e2'', event_summary = Some ''Dentist follow-up'',
       event_dateTime = Some ''2025-06-28T09:00:00'', event_date = None\<rparr>]"

definition dentist_instruction :: "string \<Rightarrow> pydict" where
  "dentist_instruction item_type =
     [(''action'', JStr ''find_and_delete''), (''item_type'', JStr item_type),
      (''id'', JNull), (''title'', JStr ''dentist''), (''datetime_start'', JNull),
      (''date'', JNull), (''time'', JNull)]"

section \<open>Observations on a run of the resolver\<close>

text \<open>A provider call that deletes.\<close>

fun is_delete :: "call \<Rightarrow> bool" where
  "is_delete (TasksDelete tasklist t) = True"
| "is_delete (EventsDelete e) = True"
| "is_delete c = False"

text \<open>The candidates a returned dictionary lists: its \<^verbatim>\<open>tasks\<close>, or \<^verbatim>\<open>events\<close>, none
  when the key is missing.\<close>

definition listed_tasks :: "envelope \<Rightarrow> task list" where
  "listed_tasks env = (case env_tasks env of None \<Rightarrow> [] | Some ts \<Rightarrow> ts)"

definition listed_events :: "envelope \<Rightarrow> event list" where
  "listed_events env = (case env_events env of None \<Rightarrow> [] | Some es \<Rightarrow> es)"

text \<open>
  The timestamps of a candidate are readable when \<^verbatim>\<open>datetime.fromisoformat\<close> accepts
  them as the code passes them: the due date of a task, the start of an event. The
  timestamps the provider returns are of this kind.
\<close>

definition due_readable :: "pylib \<Rightarrow> task \<Rightarrow> bool" where
  "due_readable L t =
     (case nonempty (task_due t) of
        None \<Rightarrow> True
      | Some due_date \<Rightarrow>
          (case fromisoformat L (str_replace ''Z'' ''+00:00'' due_date) of
             Inl e \<Rightarrow> False
           | Inr d \<Rightarrow> True))"

definition start_readable :: "pylib \<Rightarrow> event \<Rightarrow> bool" where
  "start_readable L ev =
     (case nonempty (event_dateTime ev) of
        Some ev_datetime \<Rightarrow>
          (case fromisoformat L (str_replace ''Z'' ''+00:00'' ev_datetime) of
             Inl e \<Rightarrow> False
           | Inr d \<Rightarrow> True)
      | None \<Rightarrow>
          (case nonempty (event_date ev) of
             Some ev_date \<Rightarrow> (case fromisoformat L ev_date of Inl e \<Rightarrow> False | Inr d \<Rightarrow> True)
           | None \<Rightarrow> True))"

text \<open>An instruction whose description is the full title of the first candidate.\<close>

definition appointment_instruction :: "string \<Rightarrow> pydict" where
  "appointment_instruction item_type =
     [(''action'', JStr ''find_and_delete''), (''item_type'', JStr item_type),
      (''id'', JNull), (''title'', JStr ''Dentist appointment''), (''datetime_start'', JNull),
      (''date'', JNull), (''time'', JNull)]"

text \<open>A task due on 28 June, and an instruction that describes it and carries a date
  hint of 27 June.\<close>

definition report_tasks :: "task list" where
  "report_tasks =
     [\<lparr>task_id = ''t9'', task_title = Some ''Quarterly report'',
       task_due = Some ''2025-06-28T00:00:00.000Z''\<rparr>]"

definition dated_report_instruction :: pydict where
  "dated_report_instruction =
     [(''action'', JStr ''find_and_delete''), (''item_type'', JStr ''task''),
      (''title'', JStr ''report''), (''date'', JStr ''2025-06-27'')]"

text \<open>The first and the second sample event.\<close>

definition appointment_event :: event where
  "appointment_event =
     \<lparr>event_id = ''e1'', event_summary = Some ''Dentist appointment'',
      event_dateTime = Some ''2025-06-27T17:00:00'', event_date = None\<rparr>"

definition followup_event :: event where
  "followup_event =
     \<lparr>event_id = ''e2'', event_summary = Some ''Dentist follow-up'',
      event_dateTime = Some ''2025-06-28T09:00:00'', event_date = None\<rparr>"


section \<open>The tests of the resolver, and further samples\<close>

text \<open>
  The condition under which the loop of the event resolver appends a candidate (lines
  1500 to 1538): the title test holds and \<open>date_matches\<close> ends true. The test of a
  candidate raises when its title passes and the temporal comparison ends in an
  exception.
\<close>

definition event_matches :: "pylib \<Rightarrow> pydict \<Rightarrow> string \<Rightarrow> event \<Rightarrow> bool" where
  "event_matches L instruction search_description ev \<longleftrightarrow>
     event_title_matches search_description ev \<and>
     date_matches L (dict_get instruction ''date'' JNull)
       (dict_get instruction ''datetime_start'' JNull)
       (dict_get instruction ''time'' JNull) ev = Inr True"

definition temporal_test_raises :: "pylib \<Rightarrow> pydict \<Rightarrow> string \<Rightarrow> event \<Rightarrow> bool" where
  "temporal_test_raises L instruction search_description ev \<longleftrightarrow>
     event_title_matches search_description ev \<and>
     isl (date_matches L (dict_get instruction ''date'' JNull)
            (dict_get instruction ''datetime_start'' JNull)
            (dict_get instruction ''time'' JNull) ev)"

text \<open>
  The title rule as the specification words it, for a description \<open>d\<close> and a title
  \<open>t\<close>: the lowercased description is a substring of the lowercased title, or the
  other way round.
\<close>

definition title_contains :: "string \<Rightarrow> string \<Rightarrow> bool" where
  "title_contains d t \<longleftrightarrow>
     is_substring (lower d) (lower t) \<or> is_substring (lower t) (lower d)"

text \<open>\<^verbatim>\<open>task.get('title', '')\<close> and \<^verbatim>\<open>event.get('summary', '')\<close>.\<close>

definition title_of_task :: "task \<Rightarrow> string" where
  "title_of_task t = (case task_title t of None \<Rightarrow> [] | Some s \<Rightarrow> s)"

definition summary_of_event :: "event \<Rightarrow> string" where
  "summary_of_event ev = (case event_summary ev of None \<Rightarrow> [] | Some s \<Rightarrow> s)"

text \<open>An instruction whose \<^verbatim>\<open>title\<close> is \<^verbatim>\<open>null\<close>, as the prompt asks for an
  unspecified title.\<close>

definition null_title_instruction :: "string \<Rightarrow> pydict" where
  "null_title_instruction item_type =
     [(''action'', JStr ''find_and_delete''), (''item_type'', JStr item_type),
      (''id'', JNull), (''title'', JNull), (''datetime_start'', JNull),
      (''date'', JNull), (''time'', JNull)]"

text \<open>Two tasks whose titles hold "report", due on 28 June and on 27 June, and a
  library that reads their due dates.\<close>

definition report_pair :: "task list" where
  "report_pair =
     [\<lparr>task_id = ''t9'', task_title = Some ''Quarterly report'',
       task_due = Some ''2025-06-28T00:00:00.000Z''\<rparr>,
      \<lparr>task_id = ''t10'', task_title = Some ''Annual report'',
       task_due = Some ''2025-06-27T00:00:00.000Z''\<rparr>]"

definition due_fromisoformat :: "string \<Rightarrow> string + datetime" where
  "due_fromisoformat s =
     (if s = ''2025-06-27T00:00:00.000+00:00''
      then Inr \<lparr>dt_year = 2025, dt_month = 6, dt_day = 27, dt_hour = 0, dt_minute = 0,
                dt_second = 0, dt_microsecond = 0, dt_utcoffset = Some 0\<rparr>
      else if s = ''2025-06-28T00:00:00.000+00:00''
      then Inr \<lparr>dt_year = 2025, dt_month = 6, dt_day = 28, dt_hour = 0, dt_minute = 0,
                dt_second = 0, dt_microsecond = 0, dt_utcoffset = Some 0\<rparr>
      else sample_fromisoformat s)"

definition due_lib :: pylib where
  "due_lib = sample_lib\<lparr>fromisoformat := due_fromisoformat\<rparr>"

text \<open>An all-day event, and an event instruction that carries a time hint alone.\<close>

definition allday_event :: event where
  "allday_event =
     \<lparr>event_id = ''e3'', event_summary = Some ''Dentist appointment'',
      event_dateTime = None, event_date = Some ''2025-06-27''\<rparr>"

definition time_hint_instruction :: pydict where
  "time_hint_instruction =
     [(''action'', JStr ''find_and_delete''), (''item_type'', JStr ''event''),
      (''id'', JNull), (''title'', JStr ''dentist''), (''datetime_start'', JNull),
      (''date'', JNull), (''time'', JStr ''17:00'')]"

text \<open>An event instruction that carries a \<^verbatim>\<open>datetime_start\<close> hint alone, and a task
  instruction without a title.\<close>

definition half_past_five_instruction :: pydict where
  "half_past_five_instruction =
     [(''action'', JStr ''find_and_delete''), (''item_type'', JStr ''event''),
      (''id'', JNull), (''title'', JStr ''dentist''),
      (''datetime_start'', JStr ''2025-06-27T17:30:00''),
      (''date'', JNull), (''time'', JNull)]"


section \<open>Properties of the conversation store\<close>

lemma slice_from_neg: "0 < k \<Longrightarrow> slice_from (- int k) xs = last_n k xs"
  by (auto simp: slice_from_def last_n_def Let_def max_def nat_diff_distrib'
      intro: arg_cong2[where f=drop])

lemma slice_from_neg20: "slice_from (- 20) xs = last_n 20 xs"
  using slice_from_neg[of 20 xs] by simp

lemma last_n_short: "length xs \<le> n \<Longrightarrow> last_n n xs = xs"
  by (simp add: last_n_def)

lemma length_last_n: "length (last_n n xs) = min n (length xs)"
  by (auto simp: last_n_def)

lemma last_n_last_n_append: "last_n n (last_n n xs @ ys) = last_n n (xs @ ys)"
proof (cases "length xs \<le> n")
  case True
  then show ?thesis by (simp add: last_n_def)
next
  case False
  then have "length xs + length ys - (length xs - n + n) + (length xs - n)
             = length xs + length ys - n"
    by arith
  with False show ?thesis by (simp add: last_n_def)
qed

text \<open>One append: the user's history becomes the last 20 of the old history followed
  by the new entry; every other user's history is untouched.\<close>

lemma do_append_apply:
  "do_append st c u =
     (if u = ac_user c then Some (last_n 20 (hist_of st u @ [entry_of c])) else st u)"
  by (auto simp: do_append_def add_to_conversation_history_def Let_def hist_of_def entry_of_def
      slice_from_neg20 last_n_short split: option.splits)

lemma run_appends_apply:
  "run_appends st cs u =
     (if filter (\<lambda>c. ac_user c = u) cs = [] then st u
      else Some (last_n 20 (hist_of st u @ map entry_of (filter (\<lambda>c. ac_user c = u) cs))))"
proof (induction cs arbitrary: st)
  case Nil
  then show ?case by simp
next
  case (Cons c cs)
  show ?case
    by (simp add: Cons.IH do_append_apply hist_of_def last_n_last_n_append)
qed

lemma sample_calls_user: "filter (\<lambda>c. ac_user c = ''u'') (map sample_call ns) = map sample_call ns"
  by (induction ns) (simp_all add: sample_call_def)

lemma sample_calls_other:
  "u \<noteq> ''u'' \<Longrightarrow> filter (\<lambda>c. ac_user c = u) (map sample_call ns) = []"
  by (induction ns) (auto simp: sample_call_def)

text \<open>
  Claim C5. Starting from the empty dictionary, after any sequence of appends the stored
  history of every user has at most 20 entries, and it is exactly the last 20 of the
  entries appended for that user, in the order of insertion: the oldest entries are the
  ones evicted, and the entries kept are the ones inserted, unchanged.
\<close>

theorem history_bounded_fifo:
  "(\<forall>h. run_appends Map.empty cs u = Some h \<longrightarrow> length h \<le> 20) \<and>
   run_appends Map.empty cs u =
     (if filter (\<lambda>c. ac_user c = u) cs = [] then None
      else Some (last_n 20 (map entry_of (filter (\<lambda>c. ac_user c = u) cs))))"
  by (simp add: run_appends_apply hist_of_def length_last_n)

theorem history_bounded_fifo_witness:
  "run_appends Map.empty (map sample_call [0..<21]) ''u''
     = Some (map entry_of (map sample_call [1..<21])) \<and>
   length (map entry_of (map sample_call [1..<21])) \<le> 20"
proof -
  have "[0..<21] = 0 # [1..<21]"
    by (simp add: upt_rec)
  then have "last_n 20 (map entry_of (map sample_call [0..<21]))
             = map entry_of (map sample_call [1..<21])"
    by (simp add: last_n_def)
  then show ?thesis
    using history_bounded_fifo [of "map sample_call [0..<21]" "''u''"]
    by (simp add: sample_calls_user del: upt_Suc)
qed

text \<open>
  Claim C6, as the code has it. For every user id and every count \<open>k \<ge> 1\<close> the read
  returns the last \<open>min k length\<close> stored entries in their stored order; an unknown
  user id gives the empty list; with no count supplied the count is 10.
\<close>

theorem history_read_recent:
  "(0 < k \<longrightarrow>
      get_conversation_history st u (Some k)
        = (case st u of None \<Rightarrow> [] | Some h \<Rightarrow> last_n (min (nat k) (length h)) h)) \<and>
   (st u = None \<longrightarrow> get_conversation_history st u kopt = []) \<and>
   get_conversation_history st u None = get_conversation_history st u (Some 10)"
proof -
  have "get_conversation_history st u (Some k)
          = (case st u of None \<Rightarrow> [] | Some h \<Rightarrow> last_n (min (nat k) (length h)) h)"
    if "0 < k"
  proof (cases "st u")
    case None
    then show ?thesis by (simp add: get_conversation_history_def)
  next
    case (Some h)
    from that have "slice_from (- k) h = last_n (nat k) h"
      using slice_from_neg [of "nat k" h] by simp
    moreover have "last_n (nat k) h = last_n (min (nat k) (length h)) h"
      by (simp add: last_n_def min_def)
    ultimately show ?thesis
      using Some by (simp add: get_conversation_history_def)
  qed
  then show ?thesis
    by (simp add: get_conversation_history_def)
qed

theorem history_read_recent_witness:
  "get_conversation_history (run_appends Map.empty (map sample_call [0..<3])) ''u'' (Some 2)
     = map entry_of (map sample_call [1..<3]) \<and>
   get_conversation_history (run_appends Map.empty (map sample_call [0..<3])) ''v'' (Some 2) = []"
proof -
  have u: "run_appends Map.empty (map sample_call [0..<3]) ''u''
             = Some (map entry_of (map sample_call [0..<3]))"
    by (simp add: run_appends_apply sample_calls_user hist_of_def last_n_def del: upt_Suc)
  have v: "run_appends Map.empty (map sample_call [0..<3]) ''v'' = None"
    by (simp add: run_appends_apply sample_calls_other del: upt_Suc)
  have l: "last_n (min (nat 2) (length (map entry_of (map sample_call [0..<3]))))
             (map entry_of (map sample_call [0..<3]))
             = map entry_of (map sample_call [1..<3])"
    by code_simp
  have "get_conversation_history (run_appends Map.empty (map sample_call [0..<3])) ''u'' (Some 2)
          = map entry_of (map sample_call [1..<3])"
    using history_read_recent
            [of 2 "run_appends Map.empty (map sample_call [0..<3])" "''u''" "Some 2"]
    unfolding u option.case l by simp
  moreover
  have "get_conversation_history (run_appends Map.empty (map sample_call [0..<3])) ''v'' (Some 2)
          = []"
    using history_read_recent
            [of 2 "run_appends Map.empty (map sample_call [0..<3])" "''v''" "Some 2"] v
    by simp
  ultimately show ?thesis
    by (simp only:)
qed

text \<open>
  Claim C6 as the specification words it, with a default count of 8, fails: after nine
  appends for one user a read without a count returns all nine entries, not the last 8.
\<close>

theorem history_default_count_counterexample:
  "get_conversation_history (run_appends Map.empty (map sample_call [0..<9])) ''u'' None
     \<noteq> last_n (min 8 (length (map entry_of (map sample_call [0..<9]))))
           (map entry_of (map sample_call [0..<9]))"
proof -
  have u: "run_appends Map.empty (map sample_call [0..<9]) ''u''
             = Some (map entry_of (map sample_call [0..<9]))"
    by (simp add: run_appends_apply sample_calls_user hist_of_def last_n_def del: upt_Suc)
  have "length (get_conversation_history
                  (run_appends Map.empty (map sample_call [0..<9])) ''u'' None) = 9"
    by (simp add: u get_conversation_history_def slice_from_def del: upt_Suc)
  moreover have "length (last_n (min 8 (length (map entry_of (map sample_call [0..<9]))))
                   (map entry_of (map sample_call [0..<9]))) = 8"
    by (simp add: length_last_n del: upt_Suc)
  ultimately have "(9::nat) = 8"
    if "get_conversation_history (run_appends Map.empty (map sample_call [0..<9])) ''u'' None
          = last_n (min 8 (length (map entry_of (map sample_call [0..<9]))))
              (map entry_of (map sample_call [0..<9]))"
    using that by (simp only:)
  then show ?thesis
    by auto
qed

section \<open>Properties of the dispatcher\<close>

lemma find_reminder_response:
  "find_instruction reminder_response = Some reminder_captured"
  by code_simp

lemma clean_reminder_response:
  "clean_json_string reminder_captured = reminder_captured"
  by code_simp

lemma loads_reminder_response:
  "sample_loads reminder_captured = Loaded (JObj reminder_instruction)"
  by code_simp

lemma process_reminder_response:
  "process_ai_instruction sample_lib sample_handlers reminder_response uid
     = dispatch sample_lib sample_handlers (JObj reminder_instruction) uid"
proof -
  have "json_loads sample_lib reminder_captured = Loaded (JObj reminder_instruction)"
    by (simp add: sample_lib_def loads_reminder_response)
  then show ?thesis
    by (simp add: process_ai_instruction_def process_instruction_str_def
        find_reminder_response clean_reminder_response)
qed

text \<open>An action outside the seven known ones is answered with the error dictionary that
  names it, and no provider call is made.\<close>

lemma unknown_action_error:
  assumes "dict_get d ''action'' JNull = JStr a"
    and "a \<notin> {''greeting'', ''create'', ''update'', ''delete'', ''find_and_delete'',
               ''query'', ''clarification_needed''}"
  shows "dispatch L H (JObj d) uid = (Some (err_env (''Unknown action: '' @ a)), [])"
  using assms by (auto simp: dispatch_def route_def Let_def py_str_def)

text \<open>
  Claim C4, at the point where the code departs from it. An instruction whose action is
  one of the five routed ones and whose item type is neither \<^verbatim>\<open>event\<close> nor \<^verbatim>\<open>task\<close>
  is outside the routing table; the dispatcher makes no provider call, but it returns
  no dictionary at all: the function ends without a \<^verbatim>\<open>return\<close>.
\<close>

theorem routed_action_other_item_type_returns_none:
  assumes "dict_get d ''action'' JNull
             \<in> JStr ` {''create'', ''update'', ''delete'', ''find_and_delete'', ''query''}"
    and "dict_get d ''item_type'' JNull \<notin> {JStr ''event'', JStr ''task''}"
  shows "dispatch L H (JObj d) uid = (None, [])"
  using assms by (auto simp: dispatch_def route_def by_item_type_def Let_def)

theorem routed_action_other_item_type_returns_none_witness:
  "process_ai_instruction sample_lib sample_handlers reminder_response ''u'' = (None, [])"
proof -
  have "dict_get reminder_instruction ''action'' JNull
          \<in> JStr ` {''create'', ''update'', ''delete'', ''find_and_delete'', ''query''}"
    by (simp add: reminder_instruction_def dict_get_def)
  moreover have "dict_get reminder_instruction ''item_type'' JNull
                   \<notin> {JStr ''event'', JStr ''task''}"
    by (simp add: reminder_instruction_def dict_get_def)
  ultimately have "dispatch sample_lib sample_handlers (JObj reminder_instruction) ''u''
                     = (None, [])"
    by (rule routed_action_other_item_type_returns_none)
  then show ?thesis
    by (simp only: process_reminder_response)
qed

text \<open>
  Claim C9, as the code has it. For every instruction whose action is
  \<^verbatim>\<open>clarification_needed\<close> the dispatcher returns the dictionary with \<^verbatim>\<open>success\<close>
  true, the message "Clarification needed" and the flag \<^verbatim>\<open>clarification\<close> true, and
  makes no provider call. The dictionary has no other key: it is the same whatever the
  instruction's \<^verbatim>\<open>missing_fields\<close>.
\<close>

theorem clarification_envelope:
  assumes "dict_get d ''action'' JNull = JStr ''clarification_needed''"
  shows "dispatch L H (JObj d) uid
           = (Some (empty_env\<lparr>env_success := Some True,
                               env_message := Some ''Clarification needed'',
                               env_clarification := Some True\<rparr>), [])"
  using assms by (simp add: dispatch_def route_def Let_def)

theorem clarification_envelope_witness:
  "dispatch sample_lib sample_handlers (JObj clarify_date) ''u''
     = (Some (empty_env\<lparr>env_success := Some True,
                         env_message := Some ''Clarification needed'',
                         env_clarification := Some True\<rparr>), [])"
proof -
  have "dict_get clarify_date ''action'' JNull = JStr ''clarification_needed''"
    by (simp add: clarify_date_def dict_get_def)
  then show ?thesis
    by (rule clarification_envelope)
qed

text \<open>
  Claim C9 as the specification words it fails: the missing fields are not carried.
  Two instructions that differ in their \<^verbatim>\<open>missing_fields\<close> get the same answer.
\<close>

theorem clarification_missing_fields_counterexample:
  "dict_get clarify_date ''missing_fields'' JNull \<noteq> dict_get clarify_time ''missing_fields'' JNull
   \<and> dispatch sample_lib sample_handlers (JObj clarify_date) ''u''
       = dispatch sample_lib sample_handlers (JObj clarify_time) ''u''"
  by (simp add: clarify_date_def clarify_time_def dict_get_def dispatch_def route_def)

section \<open>Properties of the brace-balanced recovery\<close>

lemma brace_depth_Nil: "brace_depth [] = 0"
  by (simp add: brace_depth_def)

lemma brace_depth_Cons:
  "brace_depth (c # cs) =
     (if c = CHR ''{'' then 1 else if c = CHR ''}'' then - 1 else 0) + brace_depth cs"
  by (simp add: brace_depth_def)

lemma scan_braces_Some:
  "1 \<le> bc \<Longrightarrow> scan_braces bc cs = Some n \<Longrightarrow>
     0 < n \<and> n \<le> length cs \<and> bc + brace_depth (take n cs) = 0 \<and>
     (\<forall>m < n. 0 < bc + brace_depth (take m cs))"
proof (induction cs arbitrary: bc n)
  case Nil
  then show ?case by simp
next
  case (Cons c cs)
  show ?case
  proof (cases "c = CHR ''}'' \<and> bc - 1 = 0")
    case True
    with Cons.prems have n: "n = 1" by simp
    have "m = 0" if "m < n" for m using that n by simp
    with True Cons.prems(1) n show ?thesis
      by (auto simp: brace_depth_Cons brace_depth_Nil)
  next
    case False
    define bc' where "bc' = bc + (if c = CHR ''{'' then 1 else if c = CHR ''}'' then - 1 else 0)"
    from False Cons.prems(1) have bc': "1 \<le> bc'"
      by (auto simp: bc'_def)
    from False Cons.prems(2) obtain k where k: "scan_braces bc' cs = Some k" "n = Suc k"
      by (auto simp: bc'_def split: if_splits)
    from Cons.IH[OF bc' k(1)]
    have ih: "0 < k" "k \<le> length cs" "bc' + brace_depth (take k cs) = 0"
      "\<forall>m<k. 0 < bc' + brace_depth (take m cs)"
      by auto
    have "0 < bc + brace_depth (take m (c # cs))" if "m < n" for m
    proof (cases m)
      case 0
      with Cons.prems(1) show ?thesis by (simp add: brace_depth_Nil)
    next
      case (Suc j)
      with that k(2) have "j < k" by simp
      with ih(4) have "0 < bc' + brace_depth (take j cs)" by simp
      then show ?thesis
        using Suc by (simp add: brace_depth_Cons bc'_def)
    qed
    moreover have "bc + brace_depth (take n (c # cs)) = 0"
      using ih(3) k(2) by (simp add: brace_depth_Cons bc'_def)
    ultimately show ?thesis
      using ih(1,2) k(2) by simp
  qed
qed

lemma scan_braces_None:
  "1 \<le> bc \<Longrightarrow> scan_braces bc cs = None \<Longrightarrow> n \<le> length cs \<Longrightarrow>
     0 < bc + brace_depth (take n cs)"
proof (induction cs arbitrary: bc n)
  case Nil
  then show ?case by (simp add: brace_depth_Nil)
next
  case (Cons c cs)
  define bc' where "bc' = bc + (if c = CHR ''{'' then 1 else if c = CHR ''}'' then - 1 else 0)"
  from Cons.prems(2) have nz: "\<not> (c = CHR ''}'' \<and> bc - 1 = 0)"
    by (auto split: if_splits)
  with Cons.prems(1) have bc': "1 \<le> bc'"
    by (auto simp: bc'_def)
  from Cons.prems(2) nz have none: "scan_braces bc' cs = None"
    by (auto simp: bc'_def split: if_splits)
  show ?case
  proof (cases n)
    case 0
    with Cons.prems(1) show ?thesis by (simp add: brace_depth_Nil)
  next
    case (Suc j)
    with Cons.prems(3) have "j \<le> length cs" by simp
    from Cons.IH[OF bc' none this] show ?thesis
      using Suc by (simp add: brace_depth_Cons bc'_def)
  qed
qed


lemma str_find_Some:
  "str_find x s = Some p \<Longrightarrow> \<exists>rest. drop p s = x # rest"
proof (induction s arbitrary: p)
  case Nil
  then show ?case by simp
next
  case (Cons c cs)
  then show ?case by (auto split: if_splits)
qed

lemma scan_from_brace_Some:
  assumes "scan_braces 0 (CHR ''{'' # rest) = Some n"
  shows "first_balanced_span (CHR ''{'' # rest) n"
proof -
  from assms obtain k where k: "scan_braces 1 rest = Some k" "n = Suc k"
    by auto
  from scan_braces_Some[OF _ k(1)]
  have ih: "0 < k" "k \<le> length rest" "1 + brace_depth (take k rest) = 0"
    "\<forall>m<k. 0 < 1 + brace_depth (take m rest)"
    by auto
  have "brace_depth (take m (CHR ''{'' # rest)) \<noteq> 0" if "m \<in> {1 ..< n}" for m
  proof -
    from that obtain j where j: "m = Suc j" "j < k"
      using k(2) by (cases m) auto
    with ih(4) have "0 < 1 + brace_depth (take j rest)" by simp
    with j(1) show ?thesis by (simp add: brace_depth_Cons)
  qed
  moreover have "brace_depth (take n (CHR ''{'' # rest)) = 0"
    using ih(3) k(2) by (simp add: brace_depth_Cons)
  ultimately show ?thesis
    using ih(1,2) k(2) by (simp add: first_balanced_span_def)
qed

lemma scan_from_brace_None:
  assumes "scan_braces 0 (CHR ''{'' # rest) = None"
  shows "\<not> first_balanced_span (CHR ''{'' # rest) n"
proof
  assume fb: "first_balanced_span (CHR ''{'' # rest) n"
  from assms have none: "scan_braces 1 rest = None"
    by auto
  from fb obtain j where j: "n = Suc j" "j \<le> length rest"
    by (cases n) (auto simp: first_balanced_span_def)
  from scan_braces_None[OF _ none j(2)] have "0 < 1 + brace_depth (take j rest)"
    by simp
  moreover from fb j(1) have "1 + brace_depth (take j rest) = 0"
    by (simp add: first_balanced_span_def brace_depth_Cons)
  ultimately show False by simp
qed

lemma first_balanced_span_unique:
  assumes "first_balanced_span t n" and "first_balanced_span t k"
  shows "n = k"
proof (rule ccontr)
  assume "n \<noteq> k"
  then consider "n < k" | "k < n" by linarith
  then show False
  proof cases
    case 1
    with assms show False
      by (auto simp: first_balanced_span_def)
  next
    case 2
    with assms show False
      by (auto simp: first_balanced_span_def)
  qed
qed

lemma scan_from_brace_iff:
  "scan_braces 0 (CHR ''{'' # rest) = Some n \<longleftrightarrow> first_balanced_span (CHR ''{'' # rest) n"
proof
  assume "scan_braces 0 (CHR ''{'' # rest) = Some n"
  then show "first_balanced_span (CHR ''{'' # rest) n"
    by (rule scan_from_brace_Some)
next
  assume fb: "first_balanced_span (CHR ''{'' # rest) n"
  show "scan_braces 0 (CHR ''{'' # rest) = Some n"
  proof (cases "scan_braces 0 (CHR ''{'' # rest)")
    case None
    with scan_from_brace_None fb show ?thesis by blast
  next
    case (Some k)
    then have "first_balanced_span (CHR ''{'' # rest) k"
      by (rule scan_from_brace_Some)
    with fb have "n = k" by (rule first_balanced_span_unique)
    with Some show ?thesis by simp
  qed
qed

text \<open>
  Claim C8. When the strict parse of the repaired substring fails with a
  \<^verbatim>\<open>JSONDecodeError\<close>, the extractor looks for the first opening brace. If there is
  none, or if no prefix from that brace on has brace depth zero, it returns an error
  dictionary. Otherwise it parses exactly the first span at which the depth returns to
  zero, and nothing after it: the answer is the dispatch of what that span parses to,
  or an error dictionary when the span does not parse. In every case a dictionary is
  returned by the extractor; nothing is raised.
\<close>

theorem recovery_parses_first_balanced_span:
  assumes "json_loads L (clean_json_string captured) = JSONDecodeError e"
  shows "(str_find (CHR ''{'') (clean_json_string captured) = None \<longrightarrow>
            process_instruction_str L H captured uid
              = (Some (err_env ''Failed to parse instruction JSON: No JSON object found''), []))
       \<and> (\<forall>p. str_find (CHR ''{'') (clean_json_string captured) = Some p \<longrightarrow>
            (\<forall>n. first_balanced_span (drop p (clean_json_string captured)) n \<longrightarrow>
               process_instruction_str L H captured uid
                 = (case json_loads L (take n (drop p (clean_json_string captured))) of
                      Loaded instruction \<Rightarrow> dispatch L H instruction uid
                    | JSONDecodeError e2 \<Rightarrow>
                        (Some (err_env (''Failed to parse instruction JSON: '' @ e2)), [])
                    | OtherError x \<Rightarrow> process_failed x))
          \<and> ((\<forall>n. \<not> first_balanced_span (drop p (clean_json_string captured)) n) \<longrightarrow>
               process_instruction_str L H captured uid
                 = (Some (err_env ''Failed to parse instruction JSON: Incomplete JSON object''),
                    [])))"
proof -
  define s where "s = clean_json_string captured"
  have p0: "process_instruction_str L H captured uid = recover L H s uid"
    using assms by (simp add: process_instruction_str_def s_def)
  have a: "recover L H s uid
             = (Some (err_env ''Failed to parse instruction JSON: No JSON object found''), [])"
    if "str_find (CHR ''{'') s = None"
    using that by (simp add: recover_def)
  have b: "recover L H s uid
             = (case json_loads L (take n (drop p s)) of
                      Loaded instruction \<Rightarrow> dispatch L H instruction uid
                    | JSONDecodeError e2 \<Rightarrow>
                        (Some (err_env (''Failed to parse instruction JSON: '' @ e2)), [])
                    | OtherError x \<Rightarrow> process_failed x)"
    if "str_find (CHR ''{'') s = Some p" and "first_balanced_span (drop p s) n" for p n
  proof -
    from that(1) obtain rest where rest: "drop p s = CHR ''{'' # rest"
      using str_find_Some by blast
    with that(2) have "scan_braces 0 (drop p s) = Some n"
      by (simp only: scan_from_brace_iff)
    with that(1) show ?thesis
      by (simp add: recover_def)
  qed
  have c: "recover L H s uid
             = (Some (err_env ''Failed to parse instruction JSON: Incomplete JSON object''), [])"
    if "str_find (CHR ''{'') s = Some p" and "\<forall>n. \<not> first_balanced_span (drop p s) n" for p
  proof -
    from that(1) obtain rest where rest: "drop p s = CHR ''{'' # rest"
      using str_find_Some by blast
    have "scan_braces 0 (drop p s) = None"
    proof (cases "scan_braces 0 (drop p s)")
      case None
      then show ?thesis .
    next
      case (Some k)
      with rest have "first_balanced_span (drop p s) k"
        by (simp only: scan_from_brace_iff)
      with that(2) show ?thesis by blast
    qed
    with that(1) show ?thesis
      by (simp add: recover_def)
  qed
  show ?thesis
    unfolding p0 s_def[symmetric] using a b c by blast
qed

lemma greeting_captured_facts:
  "clean_json_string greeting_captured = greeting_captured"
  "sample_loads greeting_captured = JSONDecodeError ''Extra data''"
  "str_find (CHR ''{'') greeting_captured = Some 0"
  "first_balanced_span greeting_captured 22"
  "take 22 greeting_captured = greeting_object"
  "sample_loads greeting_object = Loaded (JObj [(''action'', JStr ''greeting'')])"
  by code_simp+

theorem recovery_parses_first_balanced_span_witness:
  "process_instruction_str sample_lib sample_handlers greeting_captured ''u''
     = (Some (empty_env\<lparr>env_success := Some True,
                         env_message := Some ''Greeting processed''\<rparr>), [])"
proof -
  have fails: "json_loads sample_lib (clean_json_string greeting_captured)
                 = JSONDecodeError ''Extra data''"
    by (simp add: sample_lib_def greeting_captured_facts)
  have found: "str_find (CHR ''{'') (clean_json_string greeting_captured) = Some 0"
    by (simp add: greeting_captured_facts)
  have span: "first_balanced_span (drop 0 (clean_json_string greeting_captured)) 22"
    by (simp add: greeting_captured_facts)
  have "process_instruction_str sample_lib sample_handlers greeting_captured ''u''
          = (case json_loads sample_lib
                    (take 22 (drop 0 (clean_json_string greeting_captured))) of
               Loaded instruction \<Rightarrow> dispatch sample_lib sample_handlers instruction ''u''
             | JSONDecodeError e2 \<Rightarrow>
                 (Some (err_env (''Failed to parse instruction JSON: '' @ e2)), [])
             | OtherError x \<Rightarrow> process_failed x)"
    using recovery_parses_first_balanced_span
            [OF fails, of sample_handlers "''u''"] found span
    by blast
  also have "json_loads sample_lib (take 22 (drop 0 (clean_json_string greeting_captured)))
               = Loaded (JObj [(''action'', JStr ''greeting'')])"
    by (simp add: sample_lib_def greeting_captured_facts)
  finally show ?thesis
    by (simp add: dispatch_def route_def dict_get_def)
qed

section \<open>Properties of the repair pass\<close>

lemma closes_mono: "closes ''}'' cs \<Longrightarrow> closes ''}]'' cs"
  by (induction cs) (auto split: if_splits)

lemma no_trailing_comma_mono:
  "\<not> has_trailing_comma ''}]'' s \<Longrightarrow> \<not> has_trailing_comma ''}'' s"
  by (induction s) (auto dest: closes_mono)

lemma sub_trailing_commas_id:
  "\<not> has_trailing_comma cl s \<Longrightarrow> sub_trailing_commas cl s = s"
  by (induction s) auto

lemma differs_closes:
  "differs_by_trailing_commas s t \<Longrightarrow> closes ''}]'' t \<Longrightarrow> closes ''}]'' s"
proof (induction s t rule: differs_by_trailing_commas.induct)
  case 1
  then show ?case by simp
next
  case (2 d s)
  then show ?case by simp
next
  case (3 s c t)
  show ?case
  proof (cases "c = CHR '',''")
    case True
    with "3.prems"(2) show ?thesis by (simp add: is_space_def)
  next
    case False
    with "3.prems"(1) obtain s' where s: "s = c # s'" "differs_by_trailing_commas s' t"
      by (auto split: list.splits)
    show ?thesis
    proof (cases "c \<in> set ''}]''")
      case True
      with s(1) show ?thesis by simp
    next
      case notcl: False
      with "3.prems"(2) have "is_space c" "closes ''}]'' t"
        by (auto split: if_splits)
      moreover from "3.IH"(2)[OF s(1) s(2) \<open>closes ''}]'' t\<close>] have "closes ''}]'' s'" .
      ultimately show ?thesis using s(1) notcl by simp
    qed
  qed
qed

lemma sub_of_differs:
  "differs_by_trailing_commas s t \<Longrightarrow> \<not> has_trailing_comma ''}]'' s \<Longrightarrow>
     sub_trailing_commas ''}]'' t = s"
proof (induction s t rule: differs_by_trailing_commas.induct)
  case 1
  then show ?case by simp
next
  case (2 d s)
  then show ?case by simp
next
  case (3 s c t)
  from "3.prems"(1) consider
      (ins) "c = CHR '',''" "closes ''}]'' t" "differs_by_trailing_commas s t"
    | (keep) s' where "s = c # s'" "differs_by_trailing_commas s' t"
    by (auto split: list.splits)
  then show ?case
  proof cases
    case ins
    from "3.IH"(1)[OF ins(3) "3.prems"(2)] ins(1,2) show ?thesis by simp
  next
    case keep
    from keep(1) "3.prems"(2) have nt: "\<not> has_trailing_comma ''}]'' s'"
      and nc: "\<not> (c = CHR '','' \<and> closes ''}]'' s')"
      by auto
    from "3.IH"(2)[OF keep(1) keep(2) nt] have ih: "sub_trailing_commas ''}]'' t = s'" .
    have "\<not> (c = CHR '','' \<and> closes ''}]'' t)"
      using nc differs_closes[OF keep(2)] by blast
    with ih keep(1) show ?thesis by auto
  qed
qed

lemma replace_from_same: "replace_from [x] [x] s = s"
proof (induction s)
  case Nil
  then show ?case by simp
next
  case (Cons c cs)
  then show ?case by auto
qed

lemma quote_issue_pattern_nonempty: "quote_issue_pattern \<noteq> []"
  by (simp add: quote_issue_pattern_def)

lemma replace_from_absent:
  "\<not> py_in old s \<Longrightarrow> replace_from old new s = s"
  by (induction s) auto

text \<open>
  Claim C7, as the code has it. Let the text \<open>t\<close> differ from the text \<open>s\<close> only by
  trailing commas, each inserted directly before the optional whitespace and the closing
  brace or bracket it trails. If \<open>s\<close> itself holds no comma followed by optional
  whitespace and a closing brace or bracket (in a strictly valid text: none inside a
  string literal), and does not hold the fifteen characters the second \<^verbatim>\<open>replace\<close>
  line looks for, then the repair pass returns \<open>s\<close> without its surrounding whitespace,
  and parsing the repaired text gives what parsing that strict text gives.
\<close>

theorem repair_removes_trailing_commas:
  assumes "differs_by_trailing_commas s t"
    and "\<not> has_trailing_comma ''}]'' s"
    and "\<not> py_in quote_issue_pattern s"
  shows "clean_json_string t = strip s \<and>
         json_loads L (clean_json_string t) = json_loads L (strip s)"
proof -
  have s1: "sub_trailing_commas ''}]'' t = s"
    using assms(1,2) by (rule sub_of_differs)
  have s2: "sub_trailing_commas ''}'' s = s"
    using assms(2) by (simp add: sub_trailing_commas_id no_trailing_comma_mono)
  have s3: "str_replace [dquote] [dquote] s = s"
    by (simp add: str_replace_def replace_from_same)
  have s4: "str_replace quote_issue_pattern [squote] s = s"
    using assms(3)
    by (simp add: str_replace_def replace_from_absent quote_issue_pattern_nonempty)
  show ?thesis
    by (simp add: clean_json_string_def s1 s2 s3 s4)
qed

lemma trailing_text_facts:
  "differs_by_trailing_commas trailing_strict trailing_text"
  "\<not> has_trailing_comma ''}]'' trailing_strict"
  "\<not> py_in quote_issue_pattern trailing_strict"
  "strip trailing_strict = trailing_repaired"
  "sample_loads trailing_repaired
     = Loaded (JObj [(''action'', JStr ''greeting''), (''n'', JArr [JInt 1, JInt 2])])"
  by code_simp+

theorem repair_removes_trailing_commas_witness:
  "clean_json_string trailing_text = trailing_repaired \<and>
   json_loads sample_lib (clean_json_string trailing_text)
     = Loaded (JObj [(''action'', JStr ''greeting''), (''n'', JArr [JInt 1, JInt 2])])"
proof -
  have "clean_json_string trailing_text = strip trailing_strict"
    using repair_removes_trailing_commas [OF trailing_text_facts(1,2,3), of sample_lib]
    by blast
  then have "clean_json_string trailing_text = trailing_repaired"
    by (simp only: trailing_text_facts(4))
  then show ?thesis
    by (simp add: sample_lib_def trailing_text_facts(5))
qed

text \<open>
  Claim C7 as the specification words it fails. The text below is a strictly valid
  rendering within surrounding whitespace, so it differs from the rendering by
  whitespace only; the repair pass removes the comma inside its title, and the parse of
  the repaired text is not the parse of the strict rendering.
\<close>

lemma comma_title_facts:
  "sample_loads comma_title_strict
     = Loaded (JObj [(''action'', JStr ''create''), (''item_type'', JStr ''task''),
                     (''title'', JStr ''buy [milk, eggs,]'')])"
  "sample_loads (clean_json_string comma_title_text)
     = Loaded (JObj [(''action'', JStr ''create''), (''item_type'', JStr ''task''),
                     (''title'', JStr ''buy [milk, eggs]'')])"
  by code_simp+

theorem repair_alters_string_literal_counterexample:
  "json_loads sample_lib (clean_json_string comma_title_text)
     \<noteq> json_loads sample_lib comma_title_strict"
  by (simp add: sample_lib_def comma_title_facts)

section \<open>Properties of the resolver\<close>

lemma collect_format_task:
  "(\<forall>t \<in> set ts. due_readable L t) \<Longrightarrow> \<exists>lines. collect (format_task L) ts = Inr lines"
proof (induction ts)
  case Nil
  then show ?case by simp
next
  case (Cons t ts)
  then obtain lines where "collect (format_task L) ts = Inr lines" by auto
  moreover from Cons.prems have "due_readable L t" by simp
  then obtain l where "format_task L t = Inr l"
    by (auto simp: due_readable_def format_task_def Let_def split: option.splits sum.splits)
  ultimately show ?case by simp
qed

lemma env_fields [simp]:
  "env_success empty_env = None" "env_error empty_env = None" "env_tasks empty_env = None"
  "env_events empty_env = None"
  "env_error (err_env e) = Some e" "env_success (err_env e) = None"
  "env_tasks (err_env e) = None" "env_events (err_env e) = None"
  by (simp_all add: empty_env_def err_env_def)

lemma resolve_task_calls:
  assumes "lower_method (dict_get instruction ''title'' (JStr [])) = Inr sd"
  shows "snd (resolve_task L W instruction tlid tasks calls)
           = (case filter (task_title_matches sd) tasks of
                [t] \<Rightarrow> calls @ [TasksDelete tlid (task_id t)]
              | _ \<Rightarrow> calls)"
  using assms
  by (simp add: resolve_task_def Let_def split: list.splits sum.splits option.splits)

lemma resolve_task_title_error:
  assumes "lower_method (dict_get instruction ''title'' (JStr [])) = Inl e"
  shows "resolve_task L W instruction tlid tasks calls = (task_failed e, calls)"
  using assms by (simp add: resolve_task_def)

lemma resolve_task_none:
  assumes "lower_method (dict_get instruction ''title'' (JStr [])) = Inr sd"
    and "filter (task_title_matches sd) tasks = []"
    and "\<forall>t \<in> set tasks. due_readable L t"
  shows "env_success (fst (resolve_task L W instruction tlid tasks calls)) = Some True"
    and "env_error (fst (resolve_task L W instruction tlid tasks calls)) = None"
    and "env_tasks (fst (resolve_task L W instruction tlid tasks calls)) = Some tasks"
proof -
  from collect_format_task[OF assms(3)] obtain lines
    where "collect (format_task L) tasks = Inr lines" by blast
  with assms(1,2)
  show "env_success (fst (resolve_task L W instruction tlid tasks calls)) = Some True"
    and "env_error (fst (resolve_task L W instruction tlid tasks calls)) = None"
    and "env_tasks (fst (resolve_task L W instruction tlid tasks calls)) = Some tasks"
    by (simp_all add: resolve_task_def Let_def)
qed

lemma resolve_task_many:
  assumes "lower_method (dict_get instruction ''title'' (JStr [])) = Inr sd"
    and "2 \<le> length (filter (task_title_matches sd) tasks)"
    and "\<forall>t \<in> set (filter (task_title_matches sd) tasks). due_readable L t"
  shows "env_success (fst (resolve_task L W instruction tlid tasks calls)) = Some True"
    and "env_error (fst (resolve_task L W instruction tlid tasks calls)) = None"
    and "env_tasks (fst (resolve_task L W instruction tlid tasks calls))
           = Some (filter (task_title_matches sd) tasks)"
proof -
  from assms(2) obtain a b rest where m: "filter (task_title_matches sd) tasks = a # b # rest"
    by (cases "filter (task_title_matches sd) tasks";
        cases "List.tl (filter (task_title_matches sd) tasks)") auto
  from collect_format_task[OF assms(3)] obtain lines
    where lines: "collect (format_task L) (a # b # rest) = Inr lines"
    unfolding m by blast
  from assms(1) m lines
  show "env_success (fst (resolve_task L W instruction tlid tasks calls)) = Some True"
    and "env_error (fst (resolve_task L W instruction tlid tasks calls)) = None"
    and "env_tasks (fst (resolve_task L W instruction tlid tasks calls))
           = Some (filter (task_title_matches sd) tasks)"
    by (simp_all add: resolve_task_def Let_def del: collect.simps)
qed

lemma find_task_listed:
  assumes "get_tasks_service W uid = None" and "tasklists_list W = Inr ids"
    and "tasks_list W (first_tasklist_id ids) = Inr tasks"
  shows "find_and_delete_task_from_instruction L W instruction uid
           = (if tasks = []
              then (empty_env
                               \<lparr>env_success := Some True,
                                env_message := Some ''No tasks found to delete.'',
                                env_formatted_response := Some (clipboard_mark
                                  @ '' **No tasks found**'' @ nl @ nl
                                  @ ''There are no tasks available to delete.'')\<rparr>,
                    [TasklistsList, TasksList (first_tasklist_id ids)])
              else resolve_task L W instruction (first_tasklist_id ids) tasks
                     [TasklistsList, TasksList (first_tasklist_id ids)])"
  using assms by (simp add: find_and_delete_task_from_instruction_def Let_def)

lemma find_task_not_listed:
  assumes "get_tasks_service W uid \<noteq> None \<or> (\<exists>e. tasklists_list W = Inl e)
           \<or> (\<exists>ids e. tasklists_list W = Inr ids \<and> tasks_list W (first_tasklist_id ids) = Inl e)"
  shows "\<forall>c \<in> set (snd (find_and_delete_task_from_instruction L W instruction uid)).
           \<not> is_delete c"
  using assms
  by (auto simp: find_and_delete_task_from_instruction_def Let_def split: option.splits sum.splits)

lemma task_delete_iff:
  "(\<exists>c \<in> set (snd (find_and_delete_task_from_instruction L W instruction uid)). is_delete c)
     \<longleftrightarrow> (\<exists>ids tasks sd t.
            get_tasks_service W uid = None \<and> tasklists_list W = Inr ids \<and>
            tasks_list W (first_tasklist_id ids) = Inr tasks \<and>
            lower_method (dict_get instruction ''title'' (JStr [])) = Inr sd \<and>
            filter (task_title_matches sd) tasks = [t])"
  (is "?lhs \<longleftrightarrow> ?rhs")
proof
  assume ?rhs
  then obtain ids tasks sd t where n: "get_tasks_service W uid = None"
      "tasklists_list W = Inr ids" "tasks_list W (first_tasklist_id ids) = Inr tasks"
      "lower_method (dict_get instruction ''title'' (JStr [])) = Inr sd"
      "filter (task_title_matches sd) tasks = [t]"
    by blast
  from n(5) have "tasks \<noteq> []" by auto
  with find_task_listed[OF n(1,2,3)] resolve_task_calls[OF n(4)] n(5)
  show ?lhs by simp
next
  assume l: ?lhs
  show ?rhs
  proof (cases "get_tasks_service W uid")
    case (Some e)
    with find_task_not_listed l show ?thesis by blast
  next
    case None
    show ?thesis
    proof (cases "tasklists_list W")
      case (Inl e)
      with find_task_not_listed l show ?thesis by blast
    next
      case (Inr ids)
      show ?thesis
      proof (cases "tasks_list W (first_tasklist_id ids)")
        case (Inl e)
        with Inr find_task_not_listed l show ?thesis by blast
      next
        case tasks: (Inr tasks)
        note listed = find_task_listed[OF None Inr tasks]
        show ?thesis
        proof (cases "tasks = []")
          case True
          with listed l show ?thesis by simp
        next
          case False
          show ?thesis
          proof (cases "lower_method (dict_get instruction ''title'' (JStr []))")
            case (Inl e)
            with listed False resolve_task_title_error[OF Inl] l show ?thesis by simp
          next
            case sd: (Inr sd)
            from listed False resolve_task_calls[OF sd] l
            obtain t where "filter (task_title_matches sd) tasks = [t]"
              by (auto split: list.splits)
            with None Inr tasks sd show ?thesis by blast
          qed
        qed
      qed
    qed
  qed
qed

lemma collect_format_event:
  "(\<forall>ev \<in> set es. start_readable L ev) \<Longrightarrow> \<exists>lines. collect (format_event L) es = Inr lines"
proof (induction es)
  case Nil
  then show ?case by simp
next
  case (Cons ev es)
  then obtain lines where "collect (format_event L) es = Inr lines" by auto
  moreover from Cons.prems have "start_readable L ev" by simp
  then obtain l where "format_event L ev = Inr l"
    by (auto simp: start_readable_def format_event_def Let_def split: option.splits sum.splits)
  ultimately show ?case by simp
qed

lemma event_outcome_calls:
  "snd (event_outcome L W sd events m calls)
     = (case m of [ev] \<Rightarrow> calls @ [EventsDelete (event_id ev)] | _ \<Rightarrow> calls)"
  by (simp add: event_outcome_def Let_def split: list.splits sum.splits option.splits)

lemma event_outcome_none:
  assumes "\<forall>ev \<in> set events. start_readable L ev"
  shows "env_success (fst (event_outcome L W sd events [] calls)) = Some True"
    and "env_error (fst (event_outcome L W sd events [] calls)) = None"
    and "env_events (fst (event_outcome L W sd events [] calls)) = Some events"
proof -
  from collect_format_event[OF assms] obtain lines
    where "collect (format_event L) events = Inr lines" by blast
  then show "env_success (fst (event_outcome L W sd events [] calls)) = Some True"
    and "env_error (fst (event_outcome L W sd events [] calls)) = None"
    and "env_events (fst (event_outcome L W sd events [] calls)) = Some events"
    by (simp_all add: event_outcome_def)
qed

lemma event_outcome_many:
  assumes "2 \<le> length m" and "\<forall>ev \<in> set m. start_readable L ev"
  shows "env_success (fst (event_outcome L W sd events m calls)) = Some True"
    and "env_error (fst (event_outcome L W sd events m calls)) = None"
    and "env_events (fst (event_outcome L W sd events m calls)) = Some m"
proof -
  from assms(1) obtain a b rest where m: "m = a # b # rest"
    by (cases m; cases "List.tl m") auto
  from collect_format_event[OF assms(2)] obtain lines
    where lines: "collect (format_event L) (a # b # rest) = Inr lines"
    unfolding m by blast
  from lines
  show "env_success (fst (event_outcome L W sd events m calls)) = Some True"
    and "env_error (fst (event_outcome L W sd events m calls)) = None"
    and "env_events (fst (event_outcome L W sd events m calls)) = Some m"
    unfolding m by (simp_all add: event_outcome_def Let_def del: collect.simps)
qed

lemma matching_events_loop_filter:
  "matching_events_loop L sd d ds t events = Inr m \<Longrightarrow>
     m = filter (\<lambda>ev. event_title_matches sd ev \<and> date_matches L d ds t ev = Inr True) events"
proof (induction events arbitrary: m)
  case Nil
  then show ?case by simp
next
  case (Cons ev evs)
  show ?case
  proof (cases "event_title_matches sd ev")
    case False
    with Cons show ?thesis by simp
  next
    case True
    with Cons.prems obtain b rest where
      b: "date_matches L d ds t ev = Inr b"
      and rest: "matching_events_loop L sd d ds t evs = Inr rest"
      and m: "m = (if b then ev # rest else rest)"
      by (auto split: sum.splits)
    from Cons.IH[OF rest] True b m show ?thesis by auto
  qed
qed

lemma matching_events_loop_total:
  "(\<forall>ev \<in> set events. event_title_matches sd ev \<longrightarrow> (\<exists>b. date_matches L d ds t ev = Inr b))
     \<Longrightarrow> \<exists>m. matching_events_loop L sd d ds t events = Inr m"
proof (induction events)
  case Nil
  then show ?case by simp
next
  case (Cons ev evs)
  then obtain rest where "matching_events_loop L sd d ds t evs = Inr rest" by auto
  with Cons.prems show ?case by (cases "event_title_matches sd ev") auto
qed

lemma resolve_event_matched:
  assumes "lower_method (dict_get instruction ''title'' (JStr [])) = Inr sd"
    and "matching_events_loop L sd (dict_get instruction ''date'' JNull)
           (dict_get instruction ''datetime_start'' JNull)
           (dict_get instruction ''time'' JNull) events = Inr m"
  shows "resolve_event L W instruction events calls = event_outcome L W sd events m calls"
  using assms by (simp add: resolve_event_def)

lemma resolve_event_raised:
  assumes "(\<exists>e. lower_method (dict_get instruction ''title'' (JStr [])) = Inl e) \<or>
           (\<exists>sd e. lower_method (dict_get instruction ''title'' (JStr [])) = Inr sd \<and>
              matching_events_loop L sd (dict_get instruction ''date'' JNull)
                (dict_get instruction ''datetime_start'' JNull)
                (dict_get instruction ''time'' JNull) events = Inl e)"
  shows "\<exists>e. resolve_event L W instruction events calls = (event_failed e, calls)"
  using assms by (auto simp: resolve_event_def)

lemma find_event_listed:
  assumes "get_calendar_service W uid = None"
    and "events_list W (utcnow_isoformat W @ ''Z'') (utcnow_plus_30_days_isoformat W @ ''Z'')
           = Inr events"
  shows "find_and_delete_calendar_event_from_instruction L W instruction uid
           = (if events = []
              then (empty_env
                          \<lparr>env_success := Some True,
                           env_message := Some ''No events found to delete.'',
                           env_formatted_response := Some (calendar_mark
                             @ '' **No events found**'' @ nl @ nl
                             @ ''There are no events available to delete.'')\<rparr>,
                    [EventsList (utcnow_isoformat W @ ''Z'')
                       (utcnow_plus_30_days_isoformat W @ ''Z'')])
              else resolve_event L W instruction events
                     [EventsList (utcnow_isoformat W @ ''Z'')
                        (utcnow_plus_30_days_isoformat W @ ''Z'')])"
  using assms by (simp add: find_and_delete_calendar_event_from_instruction_def Let_def)

lemma find_event_not_listed:
  assumes "get_calendar_service W uid \<noteq> None \<or>
           (\<exists>e. events_list W (utcnow_isoformat W @ ''Z'')
                  (utcnow_plus_30_days_isoformat W @ ''Z'') = Inl e)"
  shows "\<forall>c \<in> set (snd (find_and_delete_calendar_event_from_instruction L W instruction uid)).
           \<not> is_delete c"
  using assms
  by (auto simp: find_and_delete_calendar_event_from_instruction_def Let_def
      split: option.splits sum.splits)

lemma event_delete_iff:
  "(\<exists>c \<in> set (snd (find_and_delete_calendar_event_from_instruction L W instruction uid)).
      is_delete c)
     \<longleftrightarrow> (\<exists>events sd ev.
            get_calendar_service W uid = None \<and>
            events_list W (utcnow_isoformat W @ ''Z'') (utcnow_plus_30_days_isoformat W @ ''Z'')
              = Inr events \<and>
            lower_method (dict_get instruction ''title'' (JStr [])) = Inr sd \<and>
            matching_events_loop L sd (dict_get instruction ''date'' JNull)
              (dict_get instruction ''datetime_start'' JNull)
              (dict_get instruction ''time'' JNull) events = Inr [ev])"
  (is "?lhs \<longleftrightarrow> ?rhs")
proof
  assume ?rhs
  then obtain events sd ev where n: "get_calendar_service W uid = None"
      "events_list W (utcnow_isoformat W @ ''Z'') (utcnow_plus_30_days_isoformat W @ ''Z'')
         = Inr events"
      "lower_method (dict_get instruction ''title'' (JStr [])) = Inr sd"
      "matching_events_loop L sd (dict_get instruction ''date'' JNull)
              (dict_get instruction ''datetime_start'' JNull)
              (dict_get instruction ''time'' JNull) events = Inr [ev]"
    by blast
  from n(4) have "events \<noteq> []" by auto
  with find_event_listed[OF n(1,2)] resolve_event_matched[OF n(3,4)]
  show ?lhs by (simp add: event_outcome_calls)
next
  assume l: ?lhs
  show ?rhs
  proof (cases "get_calendar_service W uid")
    case (Some e)
    with find_event_not_listed l show ?thesis by blast
  next
    case None
    show ?thesis
    proof (cases "events_list W (utcnow_isoformat W @ ''Z'')
                    (utcnow_plus_30_days_isoformat W @ ''Z'')")
      case (Inl e)
      with find_event_not_listed l show ?thesis by blast
    next
      case (Inr events)
      note listed = find_event_listed[OF None Inr]
      show ?thesis
      proof (cases "events = []")
        case True
        with listed l show ?thesis by simp
      next
        case False
        show ?thesis
        proof (cases "lower_method (dict_get instruction ''title'' (JStr []))")
          case (Inl e)
          then obtain e' where "resolve_event L W instruction events
                  [EventsList (utcnow_isoformat W @ ''Z'')
                     (utcnow_plus_30_days_isoformat W @ ''Z'')]
                = (event_failed e', [EventsList (utcnow_isoformat W @ ''Z'')
                     (utcnow_plus_30_days_isoformat W @ ''Z'')])"
            using resolve_event_raised by blast
          with listed False l show ?thesis by simp
        next
          case sd: (Inr sd)
          show ?thesis
          proof (cases "matching_events_loop L sd (dict_get instruction ''date'' JNull)
              (dict_get instruction ''datetime_start'' JNull)
              (dict_get instruction ''time'' JNull) events")
            case (Inl e)
            with sd obtain e' where "resolve_event L W instruction events
                  [EventsList (utcnow_isoformat W @ ''Z'')
                     (utcnow_plus_30_days_isoformat W @ ''Z'')]
                = (event_failed e', [EventsList (utcnow_isoformat W @ ''Z'')
                     (utcnow_plus_30_days_isoformat W @ ''Z'')])"
              using resolve_event_raised by blast
            with listed False l show ?thesis by simp
          next
            case m: (Inr m)
            from listed False resolve_event_matched[OF sd m] l
            obtain ev where "m = [ev]"
              by (auto simp: event_outcome_calls split: list.splits)
            with None Inr sd m show ?thesis by blast
          qed
        qed
      qed
    qed
  qed
qed

lemma task_outcomes:
  fixes L :: pylib
  assumes n: "get_tasks_service W uid = None" "tasklists_list W = Inr ids"
      "tasks_list W (first_tasklist_id ids) = Inr tasks"
      "lower_method (dict_get instruction ''title'' (JStr [])) = Inr sd"
  defines "r \<equiv> find_and_delete_task_from_instruction L W instruction uid"
    and "m \<equiv> filter (task_title_matches sd) tasks"
    and "listing \<equiv> [TasklistsList, TasksList (first_tasklist_id ids)]"
  shows "(\<forall>t. m = [t] \<longrightarrow>
            snd r = listing @ [TasksDelete (first_tasklist_id ids) (task_id t)])
       \<and> (length m \<noteq> 1 \<longrightarrow> snd r = listing)
       \<and> (m = [] \<and> (\<forall>t \<in> set tasks. due_readable L t) \<longrightarrow>
            env_success (fst r) = Some True \<and> env_error (fst r) = None \<and>
            listed_tasks (fst r) = tasks)
       \<and> (2 \<le> length m \<and> (\<forall>t \<in> set m. due_readable L t) \<longrightarrow>
            env_success (fst r) = Some True \<and> env_error (fst r) = None \<and>
            listed_tasks (fst r) = m)"
proof (cases "tasks = []")
  case True
  then have "m = []" by (simp add: m_def)
  with True find_task_listed[OF n(1,2,3), of L instruction] show ?thesis
    by (simp add: r_def listing_def listed_tasks_def)
next
  case False
  with find_task_listed[OF n(1,2,3), of L instruction]
  have r: "r = resolve_task L W instruction (first_tasklist_id ids) tasks listing"
    by (simp add: r_def listing_def)
  have calls: "snd r = (case m of [t] \<Rightarrow> listing @ [TasksDelete (first_tasklist_id ids) (task_id t)]
                        | _ \<Rightarrow> listing)"
    unfolding r m_def by (rule resolve_task_calls[OF n(4)])
  have one: "snd r = listing @ [TasksDelete (first_tasklist_id ids) (task_id t)]" if "m = [t]" for t
    using calls that by simp
  have other: "snd r = listing" if "length m \<noteq> 1"
    using calls that by (auto split: list.splits)
  have none: "env_success (fst r) = Some True \<and> env_error (fst r) = None \<and>
            listed_tasks (fst r) = tasks"
    if "m = []" "\<forall>t \<in> set tasks. due_readable L t"
    using resolve_task_none[OF n(4) that(1)[unfolded m_def] that(2)]
    by (simp add: r listed_tasks_def)
  have many: "env_success (fst r) = Some True \<and> env_error (fst r) = None \<and>
            listed_tasks (fst r) = m"
    if "2 \<le> length m" "\<forall>t \<in> set m. due_readable L t"
    using resolve_task_many[OF n(4) that(1)[unfolded m_def] that(2)[unfolded m_def]]
    by (simp add: r listed_tasks_def m_def)
  from one other none many show ?thesis by blast
qed

lemma event_outcomes:
  fixes L :: pylib
  assumes n: "get_calendar_service W uid = None"
      "events_list W (utcnow_isoformat W @ ''Z'') (utcnow_plus_30_days_isoformat W @ ''Z'')
         = Inr events"
      "lower_method (dict_get instruction ''title'' (JStr [])) = Inr sd"
      "matching_events_loop L sd (dict_get instruction ''date'' JNull)
              (dict_get instruction ''datetime_start'' JNull)
              (dict_get instruction ''time'' JNull) events = Inr m"
  defines "r \<equiv> find_and_delete_calendar_event_from_instruction L W instruction uid"
    and "listing \<equiv> [EventsList (utcnow_isoformat W @ ''Z'')
                       (utcnow_plus_30_days_isoformat W @ ''Z'')]"
  shows "(\<forall>ev. m = [ev] \<longrightarrow> snd r = listing @ [EventsDelete (event_id ev)])
       \<and> (length m \<noteq> 1 \<longrightarrow> snd r = listing)
       \<and> (m = [] \<and> (\<forall>ev \<in> set events. start_readable L ev) \<longrightarrow>
            env_success (fst r) = Some True \<and> env_error (fst r) = None \<and>
            listed_events (fst r) = events)
       \<and> (2 \<le> length m \<and> (\<forall>ev \<in> set m. start_readable L ev) \<longrightarrow>
            env_success (fst r) = Some True \<and> env_error (fst r) = None \<and>
            listed_events (fst r) = m)"
proof (cases "events = []")
  case True
  with n(4) have "m = []" by simp
  with True find_event_listed[OF n(1,2), of L instruction] show ?thesis
    by (simp add: r_def listing_def listed_events_def)
next
  case False
  with find_event_listed[OF n(1,2), of L instruction] resolve_event_matched[OF n(3,4)]
  have r: "r = event_outcome L W sd events m listing"
    by (simp add: r_def listing_def)
  have calls: "snd r = (case m of [ev] \<Rightarrow> listing @ [EventsDelete (event_id ev)]
                        | _ \<Rightarrow> listing)"
    unfolding r by (rule event_outcome_calls)
  have one: "snd r = listing @ [EventsDelete (event_id ev)]" if "m = [ev]" for ev
    using calls that by simp
  have other: "snd r = listing" if "length m \<noteq> 1"
    using calls that by (auto split: list.splits)
  have none: "env_success (fst r) = Some True \<and> env_error (fst r) = None \<and>
            listed_events (fst r) = events"
    if "m = []" "\<forall>ev \<in> set events. start_readable L ev"
    using event_outcome_none[OF that(2)] that(1)
    by (simp add: r listed_events_def)
  have many: "env_success (fst r) = Some True \<and> env_error (fst r) = None \<and>
            listed_events (fst r) = m"
    if "2 \<le> length m" "\<forall>ev \<in> set m. start_readable L ev"
    using event_outcome_many[OF that]
    by (simp add: r listed_events_def)
  from one other none many show ?thesis by blast
qed

lemma matching_events_loop_raises:
  "\<exists>ev \<in> set events. event_title_matches sd ev \<and> isl (date_matches L d ds t ev)
     \<Longrightarrow> isl (matching_events_loop L sd d ds t events)"
proof (induction events)
  case Nil
  then show ?case by simp
next
  case (Cons ev evs)
  show ?case
  proof (cases "event_title_matches sd ev \<and> isl (date_matches L d ds t ev)")
    case True
    then show ?thesis by (auto simp: isl_def)
  next
    case False
    with Cons.prems have "isl (matching_events_loop L sd d ds t evs)"
      using Cons.IH by auto
    then show ?thesis by (auto simp: isl_def split: sum.splits)
  qed
qed

lemma matching_events_loop_iff:
  "matching_events_loop L sd d ds t events = Inr m \<longleftrightarrow>
     (\<forall>ev \<in> set events. \<not> (event_title_matches sd ev \<and> isl (date_matches L d ds t ev))) \<and>
     m = filter (\<lambda>ev. event_title_matches sd ev \<and> date_matches L d ds t ev = Inr True) events"
  (is "?l \<longleftrightarrow> ?noraise \<and> ?m")
proof
  assume l: ?l
  then have "\<not> isl (matching_events_loop L sd d ds t events)" by simp
  with matching_events_loop_raises have ?noraise by blast
  with matching_events_loop_filter[OF l] show "?noraise \<and> ?m" by simp
next
  assume r: "?noraise \<and> ?m"
  then have "\<forall>ev \<in> set events. event_title_matches sd ev \<longrightarrow>
               (\<exists>b. date_matches L d ds t ev = Inr b)"
    by (metis isl_def sum.exhaust)
  from matching_events_loop_total[OF this] obtain m'
    where m': "matching_events_loop L sd d ds t events = Inr m'" by blast
  from matching_events_loop_filter[OF m'] r m' show ?l by simp
qed

lemma event_delete_iff_matches:
  "(\<exists>c \<in> set (snd (find_and_delete_calendar_event_from_instruction L W instruction uid)).
      is_delete c)
     \<longleftrightarrow> (\<exists>events sd ev.
            get_calendar_service W uid = None \<and>
            events_list W (utcnow_isoformat W @ ''Z'') (utcnow_plus_30_days_isoformat W @ ''Z'')
              = Inr events \<and>
            lower_method (dict_get instruction ''title'' (JStr [])) = Inr sd \<and>
            (\<forall>e \<in> set events. \<not> temporal_test_raises L instruction sd e) \<and>
            filter (event_matches L instruction sd) events = [ev])"
  unfolding event_delete_iff matching_events_loop_iff temporal_test_raises_def event_matches_def
  by (intro ex_cong1 conj_cong refl) auto

lemma event_outcomes_matches:
  fixes L :: pylib
  assumes n: "get_calendar_service W uid = None"
      "events_list W (utcnow_isoformat W @ ''Z'') (utcnow_plus_30_days_isoformat W @ ''Z'')
         = Inr events"
      "lower_method (dict_get instruction ''title'' (JStr [])) = Inr sd"
      "\<forall>e \<in> set events. \<not> temporal_test_raises L instruction sd e"
  defines "r \<equiv> find_and_delete_calendar_event_from_instruction L W instruction uid"
    and "listing \<equiv> [EventsList (utcnow_isoformat W @ ''Z'')
                       (utcnow_plus_30_days_isoformat W @ ''Z'')]"
    and "m \<equiv> filter (event_matches L instruction sd) events"
  shows "(\<forall>ev. m = [ev] \<longrightarrow> snd r = listing @ [EventsDelete (event_id ev)])
       \<and> (length m \<noteq> 1 \<longrightarrow> snd r = listing)
       \<and> (m = [] \<and> (\<forall>ev \<in> set events. start_readable L ev) \<longrightarrow>
            env_success (fst r) = Some True \<and> env_error (fst r) = None \<and>
            listed_events (fst r) = events)
       \<and> (2 \<le> length m \<and> (\<forall>ev \<in> set m. start_readable L ev) \<longrightarrow>
            env_success (fst r) = Some True \<and> env_error (fst r) = None \<and>
            listed_events (fst r) = m)"
proof -
  have "matching_events_loop L sd (dict_get instruction ''date'' JNull)
              (dict_get instruction ''datetime_start'' JNull)
              (dict_get instruction ''time'' JNull) events = Inr m"
    unfolding matching_events_loop_iff m_def using n(4)
    by (auto simp: temporal_test_raises_def event_matches_def [abs_def])
  from event_outcomes[OF n(1,2,3) this] show ?thesis
    unfolding r_def listing_def .
qed

text \<open>
  Claim C1, as the code has it. A task passes the test of the task resolver when its
  title passes the title test; the date and time hints of the instruction are not read.
  An event passes the test of the event resolver when its title passes the title test
  and the temporal test ends true. For both resolvers a provider delete call is made
  exactly when the candidates were listed, the description is a string, no temporal
  test raised, and exactly one candidate passes the test. On a run where the candidates
  were listed, the description is a string and no temporal test raises: with exactly
  one passing candidate the calls are the listing followed by the delete of that
  candidate; with any other number the calls are the listing alone; with none the
  answer is a success dictionary listing all browsed candidates, and with two or more
  a success dictionary listing the passing candidates only, when the library reads the
  timestamps of the candidates it lists.
\<close>

theorem delete_iff_exactly_one_passes:
  fixes L :: pylib and TW :: tasks_api and EW :: events_api and instruction :: pydict
    and uid :: user_id
  defines "rt \<equiv> find_and_delete_task_from_instruction L TW instruction uid"
    and "re \<equiv> find_and_delete_calendar_event_from_instruction L EW instruction uid"
    and "description \<equiv> lower_method (dict_get instruction ''title'' (JStr []))"
    and "time_min \<equiv> utcnow_isoformat EW @ ''Z''"
    and "time_max \<equiv> utcnow_plus_30_days_isoformat EW @ ''Z''"
  shows
    "((\<exists>c \<in> set (snd rt). is_delete c) \<longleftrightarrow>
        (\<exists>ids tasks sd t.
            get_tasks_service TW uid = None \<and> tasklists_list TW = Inr ids \<and>
            tasks_list TW (first_tasklist_id ids) = Inr tasks \<and> description = Inr sd \<and>
            filter (task_title_matches sd) tasks = [t]))
   \<and> (\<forall>ids tasks sd.
         get_tasks_service TW uid = None \<and> tasklists_list TW = Inr ids \<and>
         tasks_list TW (first_tasklist_id ids) = Inr tasks \<and> description = Inr sd \<longrightarrow>
           (\<forall>t. filter (task_title_matches sd) tasks = [t] \<longrightarrow>
              snd rt = [TasklistsList, TasksList (first_tasklist_id ids)]
                         @ [TasksDelete (first_tasklist_id ids) (task_id t)])
         \<and> (length (filter (task_title_matches sd) tasks) \<noteq> 1 \<longrightarrow>
              snd rt = [TasklistsList, TasksList (first_tasklist_id ids)])
         \<and> (filter (task_title_matches sd) tasks = [] \<and>
              (\<forall>t \<in> set tasks. due_readable L t) \<longrightarrow>
              env_success (fst rt) = Some True \<and> env_error (fst rt) = None \<and>
              listed_tasks (fst rt) = tasks)
         \<and> (2 \<le> length (filter (task_title_matches sd) tasks) \<and>
              (\<forall>t \<in> set (filter (task_title_matches sd) tasks). due_readable L t) \<longrightarrow>
              env_success (fst rt) = Some True \<and> env_error (fst rt) = None \<and>
              listed_tasks (fst rt) = filter (task_title_matches sd) tasks))
   \<and> ((\<exists>c \<in> set (snd re). is_delete c) \<longleftrightarrow>
        (\<exists>events sd ev.
            get_calendar_service EW uid = None \<and>
            events_list EW time_min time_max = Inr events \<and> description = Inr sd \<and>
            (\<forall>e \<in> set events. \<not> temporal_test_raises L instruction sd e) \<and>
            filter (event_matches L instruction sd) events = [ev]))
   \<and> (\<forall>events sd.
         get_calendar_service EW uid = None \<and>
         events_list EW time_min time_max = Inr events \<and> description = Inr sd \<and>
         (\<forall>e \<in> set events. \<not> temporal_test_raises L instruction sd e) \<longrightarrow>
           (\<forall>ev. filter (event_matches L instruction sd) events = [ev] \<longrightarrow>
              snd re = [EventsList time_min time_max] @ [EventsDelete (event_id ev)])
         \<and> (length (filter (event_matches L instruction sd) events) \<noteq> 1 \<longrightarrow>
              snd re = [EventsList time_min time_max])
         \<and> (filter (event_matches L instruction sd) events = [] \<and>
              (\<forall>ev \<in> set events. start_readable L ev) \<longrightarrow>
              env_success (fst re) = Some True \<and> env_error (fst re) = None \<and>
              listed_events (fst re) = events)
         \<and> (2 \<le> length (filter (event_matches L instruction sd) events) \<and>
              (\<forall>ev \<in> set (filter (event_matches L instruction sd) events).
                 start_readable L ev) \<longrightarrow>
              env_success (fst re) = Some True \<and> env_error (fst re) = None \<and>
              listed_events (fst re) = filter (event_matches L instruction sd) events))"
proof (intro conjI allI impI; (elim conjE)?)
  show "(\<exists>c \<in> set (snd rt). is_delete c) \<longleftrightarrow>
        (\<exists>ids tasks sd t.
            get_tasks_service TW uid = None \<and> tasklists_list TW = Inr ids \<and>
            tasks_list TW (first_tasklist_id ids) = Inr tasks \<and> description = Inr sd \<and>
            filter (task_title_matches sd) tasks = [t])"
    unfolding rt_def description_def by (rule task_delete_iff)
next
  show "(\<exists>c \<in> set (snd re). is_delete c) \<longleftrightarrow>
        (\<exists>events sd ev.
            get_calendar_service EW uid = None \<and>
            events_list EW time_min time_max = Inr events \<and> description = Inr sd \<and>
            (\<forall>e \<in> set events. \<not> temporal_test_raises L instruction sd e) \<and>
            filter (event_matches L instruction sd) events = [ev])"
    unfolding re_def description_def time_min_def time_max_def
    by (rule event_delete_iff_matches)
next
  fix ids tasks sd
  assume n: "get_tasks_service TW uid = None" "tasklists_list TW = Inr ids"
    "tasks_list TW (first_tasklist_id ids) = Inr tasks" "description = Inr sd"
  note o = task_outcomes[OF n(1,2,3) n(4)[unfolded description_def], of L, folded rt_def]
  { fix t assume "filter (task_title_matches sd) tasks = [t]"
    with o show "snd rt = [TasklistsList, TasksList (first_tasklist_id ids)]
                         @ [TasksDelete (first_tasklist_id ids) (task_id t)]" by blast }
  { assume "length (filter (task_title_matches sd) tasks) \<noteq> 1"
    with o show "snd rt = [TasklistsList, TasksList (first_tasklist_id ids)]" by blast }
  { assume "filter (task_title_matches sd) tasks = []" "\<forall>t \<in> set tasks. due_readable L t"
    with o show "env_success (fst rt) = Some True" "env_error (fst rt) = None"
      "listed_tasks (fst rt) = tasks" by blast+ }
  { assume "2 \<le> length (filter (task_title_matches sd) tasks)"
      "\<forall>t \<in> set (filter (task_title_matches sd) tasks). due_readable L t"
    with o show "env_success (fst rt) = Some True" "env_error (fst rt) = None"
      "listed_tasks (fst rt) = filter (task_title_matches sd) tasks" by blast+ }
next
  fix events sd
  assume n: "get_calendar_service EW uid = None"
    "events_list EW time_min time_max = Inr events" "description = Inr sd"
    "\<forall>e \<in> set events. \<not> temporal_test_raises L instruction sd e"
  note o = event_outcomes_matches[OF n(1) n(2)[unfolded time_min_def time_max_def]
      n(3)[unfolded description_def] n(4), folded re_def time_min_def time_max_def]
  { fix ev assume "filter (event_matches L instruction sd) events = [ev]"
    with o show "snd re = [EventsList time_min time_max] @ [EventsDelete (event_id ev)]"
      by blast }
  { assume "length (filter (event_matches L instruction sd) events) \<noteq> 1"
    with o show "snd re = [EventsList time_min time_max]" by blast }
  { assume "filter (event_matches L instruction sd) events = []"
      "\<forall>ev \<in> set events. start_readable L ev"
    with o show "env_success (fst re) = Some True" "env_error (fst re) = None"
      "listed_events (fst re) = events" by blast+ }
  { assume "2 \<le> length (filter (event_matches L instruction sd) events)"
      "\<forall>ev \<in> set (filter (event_matches L instruction sd) events). start_readable L ev"
    with o show "env_success (fst re) = Some True" "env_error (fst re) = None"
      "listed_events (fst re) = filter (event_matches L instruction sd) events" by blast+ }
qed

lemma sample_api_facts:
  "get_tasks_service (sample_tasks_api ts) u = None"
  "tasklists_list (sample_tasks_api ts) = Inr [''list1'']"
  "tasks_list (sample_tasks_api ts) tasklist = Inr ts"
  "first_tasklist_id [''list1''] = ''list1''"
  "get_calendar_service (sample_events_api es) u = None"
  "events_list (sample_events_api es) a b = Inr es"
  "utcnow_isoformat (sample_events_api es) = ''2025-06-26T08:00:00''"
  "utcnow_plus_30_days_isoformat (sample_events_api es) = ''2025-07-26T08:00:00''"
  by (simp_all add: sample_tasks_api_def sample_events_api_def first_tasklist_id_def)

lemma appointment_task_facts:
  "lower_method (dict_get (appointment_instruction ''task'') ''title'' (JStr []))
     = Inr ''dentist appointment''"
  "filter (task_title_matches ''dentist appointment'') dentist_tasks
     = [\<lparr>task_id = ''t1'', task_title = Some ''Dentist appointment'', task_due = None\<rparr>]"
  by code_simp+

lemma half_past_five_facts:
  "lower_method (dict_get half_past_five_instruction ''title'' (JStr [])) = Inr ''dentist''"
  "\<forall>e \<in> set dentist_events.
      \<not> temporal_test_raises sample_lib half_past_five_instruction ''dentist'' e"
  "filter (event_matches sample_lib half_past_five_instruction ''dentist'') dentist_events
     = [appointment_event]"
  "event_id appointment_event = ''e1''"
  by code_simp+

theorem delete_iff_exactly_one_passes_witness:
  "snd (find_and_delete_task_from_instruction sample_lib (sample_tasks_api dentist_tasks)
          (appointment_instruction ''task'') ''u'')
     = [TasklistsList, TasksList ''list1'', TasksDelete ''list1'' ''t1''] \<and>
   snd (find_and_delete_calendar_event_from_instruction sample_lib
          (sample_events_api dentist_events) half_past_five_instruction ''u'')
     = [EventsList ''2025-06-26T08:00:00Z'' ''2025-07-26T08:00:00Z'', EventsDelete ''e1'']"
proof -
  note tasks_part =
    delete_iff_exactly_one_passes
      [of sample_lib "sample_tasks_api dentist_tasks" "appointment_instruction ''task''"
         "''u''" "sample_events_api dentist_events",
       THEN conjunct2, THEN conjunct1, THEN spec, THEN spec, THEN spec, THEN mp,
       THEN conjunct1, THEN spec, THEN mp,
       of "[''list1'']" dentist_tasks "''dentist appointment''"
          "\<lparr>task_id = ''t1'', task_title = Some ''Dentist appointment'', task_due = None\<rparr>"]
  have "snd (find_and_delete_task_from_instruction sample_lib (sample_tasks_api dentist_tasks)
          (appointment_instruction ''task'') ''u'')
     = [TasklistsList, TasksList (first_tasklist_id [''list1''])]
         @ [TasksDelete (first_tasklist_id [''list1''])
              (task_id \<lparr>task_id = ''t1'', task_title = Some ''Dentist appointment'',
                        task_due = None\<rparr>)]"
    by (rule tasks_part) (simp_all only: sample_api_facts appointment_task_facts simp_thms)
  moreover
  note events_part =
    delete_iff_exactly_one_passes
      [of sample_lib "sample_tasks_api dentist_tasks" half_past_five_instruction
         "''u''" "sample_events_api dentist_events",
       THEN conjunct2, THEN conjunct2, THEN conjunct2, THEN spec, THEN spec,
       THEN mp, THEN conjunct1, THEN spec, THEN mp,
       of dentist_events "''dentist''" appointment_event]
  have "snd (find_and_delete_calendar_event_from_instruction sample_lib
          (sample_events_api dentist_events) half_past_five_instruction ''u'')
     = [EventsList (utcnow_isoformat (sample_events_api dentist_events) @ ''Z'')
          (utcnow_plus_30_days_isoformat (sample_events_api dentist_events) @ ''Z'')]
         @ [EventsDelete (event_id appointment_event)]"
  proof (rule events_part)
    show "get_calendar_service (sample_events_api dentist_events) ''u'' = None \<and>
      events_list (sample_events_api dentist_events)
        (utcnow_isoformat (sample_events_api dentist_events) @ ''Z'')
        (utcnow_plus_30_days_isoformat (sample_events_api dentist_events) @ ''Z'')
        = Inr dentist_events \<and>
      lower_method (dict_get half_past_five_instruction ''title'' (JStr []))
        = Inr ''dentist'' \<and>
      (\<forall>e \<in> set dentist_events.
          \<not> temporal_test_raises sample_lib half_past_five_instruction ''dentist'' e)"
      by (intro conjI sample_api_facts half_past_five_facts)
    show "filter (event_matches sample_lib half_past_five_instruction ''dentist'')
            dentist_events = [appointment_event]"
      by (rule half_past_five_facts)
  qed
  ultimately show ?thesis
    by (simp add: sample_api_facts half_past_five_facts)
qed

text \<open>
  Claim C1 as the specification words it fails in two ways. The only listed task is due
  on 28 June and the instruction carries a date hint of 27 June, so no candidate passes
  the title rule with its temporal filter: the task is deleted all the same. And for an
  instruction whose title is \<^verbatim>\<open>null\<close> and two listed tasks the answer is neither a
  delete call nor a success dictionary: it is an error dictionary.
\<close>

theorem delete_without_temporal_match_counterexample:
  "dict_get dated_report_instruction ''date'' JNull = JStr ''2025-06-27''
   \<and> map task_due report_tasks = [Some ''2025-06-28T00:00:00.000Z'']
   \<and> snd (find_and_delete_task_from_instruction sample_lib (sample_tasks_api report_tasks)
            dated_report_instruction ''u'')
       = [TasklistsList, TasksList ''list1'', TasksDelete ''list1'' ''t9'']
   \<and> snd (find_and_delete_task_from_instruction sample_lib (sample_tasks_api dentist_tasks)
            (null_title_instruction ''task'') ''u'')
       = [TasklistsList, TasksList ''list1'']
   \<and> env_success (fst (find_and_delete_task_from_instruction sample_lib
            (sample_tasks_api dentist_tasks) (null_title_instruction ''task'') ''u'')) = None
   \<and> env_error (fst (find_and_delete_task_from_instruction sample_lib
            (sample_tasks_api dentist_tasks) (null_title_instruction ''task'') ''u''))
       = Some (''Failed to find and delete task: '' @ sq ''NoneType''
                 @ '' object has no attribute '' @ sq ''lower'')"
  by code_simp

section \<open>The title test\<close>

lemma starts_with_iff: "starts_with p s \<longleftrightarrow> (\<exists>r. s = p @ r)"
  by (induction p s rule: starts_with.induct) auto

lemma py_in_iff_substring: "py_in d t \<longleftrightarrow> is_substring d t"
proof (induction t)
  case Nil
  then show ?case by (auto simp: is_substring_def)
next
  case (Cons c cs)
  have "is_substring d (c # cs) \<longleftrightarrow> (\<exists>r. c # cs = d @ r) \<or> is_substring d cs"
  proof
    assume "is_substring d (c # cs)"
    then obtain b a where ba: "c # cs = b @ d @ a"
      by (auto simp: is_substring_def)
    show "(\<exists>r. c # cs = d @ r) \<or> is_substring d cs"
    proof (cases b)
      case Nil
      with ba show ?thesis by auto
    next
      case (Cons x b')
      with ba have "cs = b' @ d @ a" by simp
      then show ?thesis by (auto simp: is_substring_def)
    qed
  next
    assume "(\<exists>r. c # cs = d @ r) \<or> is_substring d cs"
    then show "is_substring d (c # cs)"
    proof
      assume "\<exists>r. c # cs = d @ r"
      then obtain r where "c # cs = [] @ d @ r" by auto
      then show ?thesis unfolding is_substring_def by blast
    next
      assume "is_substring d cs"
      then obtain b a where "cs = b @ d @ a" by (auto simp: is_substring_def)
      then have "c # cs = (c # b) @ d @ a" by simp
      then show ?thesis unfolding is_substring_def by blast
    qed
  qed
  with Cons show ?case
    by (simp add: starts_with_iff)
qed

lemma title_contains_task:
  "task_title_matches (lower d) t \<longleftrightarrow> title_contains d (title_of_task t)"
  by (simp add: task_title_matches_def title_contains_def title_of_task_def Let_def
      py_in_iff_substring)

lemma title_contains_event:
  "event_title_matches (lower d) ev \<longleftrightarrow> title_contains d (summary_of_event ev)"
  by (simp add: event_title_matches_def title_contains_def summary_of_event_def Let_def
      py_in_iff_substring)

lemma resolve_task_many_message:
  assumes "lower_method (dict_get instruction ''title'' (JStr [])) = Inr sd"
    and "2 \<le> length (filter (task_title_matches sd) tasks)"
    and "\<forall>t \<in> set (filter (task_title_matches sd) tasks). due_readable L t"
  shows "env_message (fst (resolve_task L W instruction tlid tasks calls))
           = Some (''Found '' @ str_of_nat (length (filter (task_title_matches sd) tasks))
                     @ '' tasks matching '' @ sq sd
                     @ ''. Please specify which one to delete:'')"
proof -
  from assms(2) obtain a b rest where m: "filter (task_title_matches sd) tasks = a # b # rest"
    by (cases "filter (task_title_matches sd) tasks";
        cases "List.tl (filter (task_title_matches sd) tasks)") auto
  from collect_format_task[OF assms(3)] obtain lines
    where lines: "collect (format_task L) (a # b # rest) = Inr lines"
    unfolding m by blast
  from assms(1) m lines show ?thesis
    by (simp add: resolve_task_def Let_def empty_env_def del: collect.simps)
qed

lemma event_outcome_many_message:
  assumes "2 \<le> length m" and "\<forall>ev \<in> set m. start_readable L ev"
  shows "env_message (fst (event_outcome L W sd events m calls))
           = Some (''Found '' @ str_of_nat (length m) @ '' events matching '' @ sq sd
                     @ ''. Please specify which one to delete:'')"
proof -
  from assms(1) obtain a b rest where m: "m = a # b # rest"
    by (cases m; cases "List.tl m") auto
  from collect_format_event[OF assms(2)] obtain lines
    where lines: "collect (format_event L) (a # b # rest) = Inr lines"
    unfolding m by blast
  from lines show ?thesis
    unfolding m by (simp add: event_outcome_def Let_def empty_env_def del: collect.simps)
qed

lemma no_hint_date_matches:
  "\<not> truthy d \<Longrightarrow> \<not> truthy ds \<Longrightarrow> \<not> truthy t \<Longrightarrow> date_matches L d ds t ev = Inr True"
  by (simp add: date_matches_def)

lemma no_hint_loop:
  assumes "\<not> truthy d" "\<not> truthy ds" "\<not> truthy t"
  shows "matching_events_loop L sd d ds t events = Inr (filter (event_title_matches sd) events)"
  unfolding matching_events_loop_iff using assms
  by (simp add: no_hint_date_matches)

lemma task_title_outcomes:
  fixes L :: pylib
  assumes n: "get_tasks_service W uid = None" "tasklists_list W = Inr ids"
      "tasks_list W (first_tasklist_id ids) = Inr tasks"
      "dict_get instruction ''title'' (JStr []) = JStr d"
  defines "r \<equiv> find_and_delete_task_from_instruction L W instruction uid"
    and "m \<equiv> filter (\<lambda>t. title_contains d (title_of_task t)) tasks"
    and "listing \<equiv> [TasklistsList, TasksList (first_tasklist_id ids)]"
  shows "(\<forall>t. m = [t] \<longrightarrow>
            snd r = listing @ [TasksDelete (first_tasklist_id ids) (task_id t)])
       \<and> (length m \<noteq> 1 \<longrightarrow> snd r = listing)
       \<and> (2 \<le> length m \<and> (\<forall>t \<in> set m. due_readable L t) \<longrightarrow>
            listed_tasks (fst r) = m \<and>
            env_message (fst r)
              = Some (''Found '' @ str_of_nat (length m) @ '' tasks matching '' @ sq (lower d)
                        @ ''. Please specify which one to delete:''))"
proof -
  have sd: "lower_method (dict_get instruction ''title'' (JStr [])) = Inr (lower d)"
    by (simp add: n(4) lower_method_def)
  have m: "m = filter (task_title_matches (lower d)) tasks"
    by (simp add: m_def title_contains_task [symmetric])
  note o = task_outcomes[OF n(1,2,3) sd, of L, folded r_def listing_def m]
  have msg: "env_message (fst r)
              = Some (''Found '' @ str_of_nat (length m) @ '' tasks matching '' @ sq (lower d)
                        @ ''. Please specify which one to delete:'')"
    if "2 \<le> length m" "\<forall>t \<in> set m. due_readable L t"
  proof -
    from that(1) have "tasks \<noteq> []" by (auto simp: m)
    with find_task_listed[OF n(1,2,3), of L instruction]
    have "r = resolve_task L W instruction (first_tasklist_id ids) tasks listing"
      by (simp add: r_def listing_def)
    with resolve_task_many_message[OF sd that(1)[unfolded m] that(2)[unfolded m]]
    show ?thesis by (simp add: m)
  qed
  from o msg show ?thesis by blast
qed

lemma event_title_outcomes:
  fixes L :: pylib
  assumes n: "get_calendar_service W uid = None"
      "events_list W (utcnow_isoformat W @ ''Z'') (utcnow_plus_30_days_isoformat W @ ''Z'')
         = Inr events"
      "dict_get instruction ''title'' (JStr []) = JStr d"
      "\<not> truthy (dict_get instruction ''date'' JNull)"
      "\<not> truthy (dict_get instruction ''datetime_start'' JNull)"
      "\<not> truthy (dict_get instruction ''time'' JNull)"
  defines "r \<equiv> find_and_delete_calendar_event_from_instruction L W instruction uid"
    and "m \<equiv> filter (\<lambda>ev. title_contains d (summary_of_event ev)) events"
    and "listing \<equiv> [EventsList (utcnow_isoformat W @ ''Z'')
                       (utcnow_plus_30_days_isoformat W @ ''Z'')]"
  shows "(\<forall>ev. m = [ev] \<longrightarrow> snd r = listing @ [EventsDelete (event_id ev)])
       \<and> (length m \<noteq> 1 \<longrightarrow> snd r = listing)
       \<and> (2 \<le> length m \<and> (\<forall>ev \<in> set m. start_readable L ev) \<longrightarrow>
            listed_events (fst r) = m \<and>
            env_message (fst r)
              = Some (''Found '' @ str_of_nat (length m) @ '' events matching '' @ sq (lower d)
                        @ ''. Please specify which one to delete:''))"
proof -
  have sd: "lower_method (dict_get instruction ''title'' (JStr [])) = Inr (lower d)"
    by (simp add: n(3) lower_method_def)
  have m: "m = filter (event_title_matches (lower d)) events"
    by (simp add: m_def title_contains_event [symmetric])
  have loop: "matching_events_loop L (lower d) (dict_get instruction ''date'' JNull)
              (dict_get instruction ''datetime_start'' JNull)
              (dict_get instruction ''time'' JNull) events = Inr m"
    unfolding m by (rule no_hint_loop[OF n(4,5,6)])
  note o = event_outcomes[OF n(1,2) sd loop, folded r_def listing_def]
  have msg: "env_message (fst r)
              = Some (''Found '' @ str_of_nat (length m) @ '' events matching '' @ sq (lower d)
                        @ ''. Please specify which one to delete:'')"
    if "2 \<le> length m" "\<forall>ev \<in> set m. start_readable L ev"
  proof -
    from that(1) have "events \<noteq> []" by (auto simp: m)
    with find_event_listed[OF n(1,2), of L instruction] resolve_event_matched[OF sd loop]
    have "r = event_outcome L W (lower d) events m listing"
      by (simp add: r_def listing_def)
    with event_outcome_many_message[OF that] show ?thesis by simp
  qed
  from o msg show ?thesis by blast
qed

lemma dentist_example_facts:
  "env_message (fst (find_and_delete_task_from_instruction sample_lib
       (sample_tasks_api dentist_tasks) (dentist_instruction ''task'') ''u''))
     = Some (''Found 2 tasks matching '' @ sq ''dentist''
               @ ''. Please specify which one to delete:'')"
  "listed_tasks (fst (find_and_delete_task_from_instruction sample_lib
       (sample_tasks_api dentist_tasks) (dentist_instruction ''task'') ''u'')) = dentist_tasks"
  "snd (find_and_delete_task_from_instruction sample_lib
       (sample_tasks_api dentist_tasks) (dentist_instruction ''task'') ''u'')
     = [TasklistsList, TasksList ''list1'']"
  "env_message (fst (find_and_delete_calendar_event_from_instruction sample_lib
       (sample_events_api dentist_events) (dentist_instruction ''event'') ''u''))
     = Some (''Found 2 events matching '' @ sq ''dentist''
               @ ''. Please specify which one to delete:'')"
  "listed_events (fst (find_and_delete_calendar_event_from_instruction sample_lib
       (sample_events_api dentist_events) (dentist_instruction ''event'') ''u''))
     = dentist_events"
  "snd (find_and_delete_calendar_event_from_instruction sample_lib
       (sample_events_api dentist_events) (dentist_instruction ''event'') ''u'')
     = [EventsList ''2025-06-26T08:00:00Z'' ''2025-07-26T08:00:00Z'']"
  by code_simp+

lemma dentist_titles_facts:
  "map title_of_task dentist_tasks = [''Dentist appointment'', ''Dentist follow-up'']"
  "map summary_of_event dentist_events = [''Dentist appointment'', ''Dentist follow-up'']"
  "dict_get (dentist_instruction ''task'') ''title'' (JStr []) = JStr ''dentist''"
  "dict_get (dentist_instruction ''event'') ''title'' (JStr []) = JStr ''dentist''"
  by code_simp+

text \<open>
  Claim C2. For a description \<open>d\<close> (the instruction's \<^verbatim>\<open>title\<close>) and a candidate, the
  title test of the task resolver and that of the event resolver hold exactly when the
  lowercased description is a substring of the candidate's lowercased title or the
  lowercased title is a substring of the lowercased description. The resolvers decide
  by this rule: when the candidates were listed (and, for events, the instruction
  carries no date or time hint), the calls are the listing followed by the delete of
  the candidate when exactly one candidate's title satisfies the rule, and the listing
  alone otherwise; when two or more satisfy it, the answer lists exactly these and its
  message says how many were found. For the candidates "Dentist appointment" and
  "Dentist follow-up" and the description "dentist", both resolvers answer "Found 2
  ... matching 'dentist'", list both candidates and make no delete call.
\<close>

theorem title_match_bidirectional_substring:
  fixes L :: pylib and TW :: tasks_api and EW :: events_api and instruction :: pydict
    and uid :: user_id and d :: string
  defines "rt \<equiv> find_and_delete_task_from_instruction L TW instruction uid"
    and "re \<equiv> find_and_delete_calendar_event_from_instruction L EW instruction uid"
    and "time_min \<equiv> utcnow_isoformat EW @ ''Z''"
    and "time_max \<equiv> utcnow_plus_30_days_isoformat EW @ ''Z''"
    and "task_rule \<equiv> \<lambda>t. title_contains d (title_of_task t)"
    and "event_rule \<equiv> \<lambda>ev. title_contains d (summary_of_event ev)"
  shows
    "(task_title_matches (lower d) tk \<longleftrightarrow>
        is_substring (lower d) (lower (title_of_task tk)) \<or>
        is_substring (lower (title_of_task tk)) (lower d))
   \<and> (event_title_matches (lower d) ev \<longleftrightarrow>
        is_substring (lower d) (lower (summary_of_event ev)) \<or>
        is_substring (lower (summary_of_event ev)) (lower d))
   \<and> (\<forall>ids tasks.
         get_tasks_service TW uid = None \<and> tasklists_list TW = Inr ids \<and>
         tasks_list TW (first_tasklist_id ids) = Inr tasks \<and>
         dict_get instruction ''title'' (JStr []) = JStr d \<longrightarrow>
           (\<forall>t. filter task_rule tasks = [t] \<longrightarrow>
              snd rt = [TasklistsList, TasksList (first_tasklist_id ids)]
                         @ [TasksDelete (first_tasklist_id ids) (task_id t)])
         \<and> (length (filter task_rule tasks) \<noteq> 1 \<longrightarrow>
              snd rt = [TasklistsList, TasksList (first_tasklist_id ids)])
         \<and> (2 \<le> length (filter task_rule tasks) \<and>
              (\<forall>t \<in> set (filter task_rule tasks). due_readable L t) \<longrightarrow>
              listed_tasks (fst rt) = filter task_rule tasks \<and>
              env_message (fst rt)
                = Some (''Found '' @ str_of_nat (length (filter task_rule tasks))
                          @ '' tasks matching '' @ sq (lower d)
                          @ ''. Please specify which one to delete:'')))
   \<and> (\<forall>events.
         get_calendar_service EW uid = None \<and>
         events_list EW time_min time_max = Inr events \<and>
         dict_get instruction ''title'' (JStr []) = JStr d \<and>
         \<not> truthy (dict_get instruction ''date'' JNull) \<and>
         \<not> truthy (dict_get instruction ''datetime_start'' JNull) \<and>
         \<not> truthy (dict_get instruction ''time'' JNull) \<longrightarrow>
           (\<forall>e. filter event_rule events = [e] \<longrightarrow>
              snd re = [EventsList time_min time_max] @ [EventsDelete (event_id e)])
         \<and> (length (filter event_rule events) \<noteq> 1 \<longrightarrow>
              snd re = [EventsList time_min time_max])
         \<and> (2 \<le> length (filter event_rule events) \<and>
              (\<forall>e \<in> set (filter event_rule events). start_readable L e) \<longrightarrow>
              listed_events (fst re) = filter event_rule events \<and>
              env_message (fst re)
                = Some (''Found '' @ str_of_nat (length (filter event_rule events))
                          @ '' events matching '' @ sq (lower d)
                          @ ''. Please specify which one to delete:'')))
   \<and> map title_of_task dentist_tasks = [''Dentist appointment'', ''Dentist follow-up'']
   \<and> dict_get (dentist_instruction ''task'') ''title'' (JStr []) = JStr ''dentist''
   \<and> env_message (fst (find_and_delete_task_from_instruction sample_lib
        (sample_tasks_api dentist_tasks) (dentist_instruction ''task'') ''u''))
        = Some (''Found 2 tasks matching '' @ sq ''dentist''
                  @ ''. Please specify which one to delete:'')
   \<and> listed_tasks (fst (find_and_delete_task_from_instruction sample_lib
        (sample_tasks_api dentist_tasks) (dentist_instruction ''task'') ''u'')) = dentist_tasks
   \<and> snd (find_and_delete_task_from_instruction sample_lib
        (sample_tasks_api dentist_tasks) (dentist_instruction ''task'') ''u'')
        = [TasklistsList, TasksList ''list1'']
   \<and> map summary_of_event dentist_events = [''Dentist appointment'', ''Dentist follow-up'']
   \<and> dict_get (dentist_instruction ''event'') ''title'' (JStr []) = JStr ''dentist''
   \<and> env_message (fst (find_and_delete_calendar_event_from_instruction sample_lib
        (sample_events_api dentist_events) (dentist_instruction ''event'') ''u''))
        = Some (''Found 2 events matching '' @ sq ''dentist''
                  @ ''. Please specify which one to delete:'')
   \<and> listed_events (fst (find_and_delete_calendar_event_from_instruction sample_lib
        (sample_events_api dentist_events) (dentist_instruction ''event'') ''u''))
        = dentist_events
   \<and> snd (find_and_delete_calendar_event_from_instruction sample_lib
        (sample_events_api dentist_events) (dentist_instruction ''event'') ''u'')
        = [EventsList ''2025-06-26T08:00:00Z'' ''2025-07-26T08:00:00Z'']"
proof (intro conjI dentist_example_facts dentist_titles_facts)
  show "task_title_matches (lower d) tk \<longleftrightarrow>
        is_substring (lower d) (lower (title_of_task tk)) \<or>
        is_substring (lower (title_of_task tk)) (lower d)"
    by (simp add: title_contains_task title_contains_def)
  show "event_title_matches (lower d) ev \<longleftrightarrow>
        is_substring (lower d) (lower (summary_of_event ev)) \<or>
        is_substring (lower (summary_of_event ev)) (lower d)"
    by (simp add: title_contains_event title_contains_def)
  show "\<forall>ids tasks.
         get_tasks_service TW uid = None \<and> tasklists_list TW = Inr ids \<and>
         tasks_list TW (first_tasklist_id ids) = Inr tasks \<and>
         dict_get instruction ''title'' (JStr []) = JStr d \<longrightarrow>
           (\<forall>t. filter task_rule tasks = [t] \<longrightarrow>
              snd rt = [TasklistsList, TasksList (first_tasklist_id ids)]
                         @ [TasksDelete (first_tasklist_id ids) (task_id t)])
         \<and> (length (filter task_rule tasks) \<noteq> 1 \<longrightarrow>
              snd rt = [TasklistsList, TasksList (first_tasklist_id ids)])
         \<and> (2 \<le> length (filter task_rule tasks) \<and>
              (\<forall>t \<in> set (filter task_rule tasks). due_readable L t) \<longrightarrow>
              listed_tasks (fst rt) = filter task_rule tasks \<and>
              env_message (fst rt)
                = Some (''Found '' @ str_of_nat (length (filter task_rule tasks))
                          @ '' tasks matching '' @ sq (lower d)
                          @ ''. Please specify which one to delete:''))"
  proof (intro allI impI, elim conjE)
    fix ids tasks
    assume "get_tasks_service TW uid = None" "tasklists_list TW = Inr ids"
      "tasks_list TW (first_tasklist_id ids) = Inr tasks"
      "dict_get instruction ''title'' (JStr []) = JStr d"
    from task_title_outcomes[OF this, of L]
    show "(\<forall>t. filter task_rule tasks = [t] \<longrightarrow>
              snd rt = [TasklistsList, TasksList (first_tasklist_id ids)]
                         @ [TasksDelete (first_tasklist_id ids) (task_id t)])
         \<and> (length (filter task_rule tasks) \<noteq> 1 \<longrightarrow>
              snd rt = [TasklistsList, TasksList (first_tasklist_id ids)])
         \<and> (2 \<le> length (filter task_rule tasks) \<and>
              (\<forall>t \<in> set (filter task_rule tasks). due_readable L t) \<longrightarrow>
              listed_tasks (fst rt) = filter task_rule tasks \<and>
              env_message (fst rt)
                = Some (''Found '' @ str_of_nat (length (filter task_rule tasks))
                          @ '' tasks matching '' @ sq (lower d)
                          @ ''. Please specify which one to delete:''))"
      unfolding rt_def task_rule_def .
  qed
  show "\<forall>events.
         get_calendar_service EW uid = None \<and>
         events_list EW time_min time_max = Inr events \<and>
         dict_get instruction ''title'' (JStr []) = JStr d \<and>
         \<not> truthy (dict_get instruction ''date'' JNull) \<and>
         \<not> truthy (dict_get instruction ''datetime_start'' JNull) \<and>
         \<not> truthy (dict_get instruction ''time'' JNull) \<longrightarrow>
           (\<forall>e. filter event_rule events = [e] \<longrightarrow>
              snd re = [EventsList time_min time_max] @ [EventsDelete (event_id e)])
         \<and> (length (filter event_rule events) \<noteq> 1 \<longrightarrow>
              snd re = [EventsList time_min time_max])
         \<and> (2 \<le> length (filter event_rule events) \<and>
              (\<forall>e \<in> set (filter event_rule events). start_readable L e) \<longrightarrow>
              listed_events (fst re) = filter event_rule events \<and>
              env_message (fst re)
                = Some (''Found '' @ str_of_nat (length (filter event_rule events))
                          @ '' events matching '' @ sq (lower d)
                          @ ''. Please specify which one to delete:''))"
  proof (intro allI impI, elim conjE)
    fix events
    assume "get_calendar_service EW uid = None"
      "events_list EW time_min time_max = Inr events"
      "dict_get instruction ''title'' (JStr []) = JStr d"
      "\<not> truthy (dict_get instruction ''date'' JNull)"
      "\<not> truthy (dict_get instruction ''datetime_start'' JNull)"
      "\<not> truthy (dict_get instruction ''time'' JNull)"
    from event_title_outcomes[OF this(1) this(2)[unfolded time_min_def time_max_def]
        this(3,4,5,6), of L]
    show "(\<forall>e. filter event_rule events = [e] \<longrightarrow>
              snd re = [EventsList time_min time_max] @ [EventsDelete (event_id e)])
         \<and> (length (filter event_rule events) \<noteq> 1 \<longrightarrow>
              snd re = [EventsList time_min time_max])
         \<and> (2 \<le> length (filter event_rule events) \<and>
              (\<forall>e \<in> set (filter event_rule events). start_readable L e) \<longrightarrow>
              listed_events (fst re) = filter event_rule events \<and>
              env_message (fst re)
                = Some (''Found '' @ str_of_nat (length (filter event_rule events))
                          @ '' events matching '' @ sq (lower d)
                          @ ''. Please specify which one to delete:''))"
      unfolding re_def event_rule_def time_min_def time_max_def .
  qed
qed

lemma title_rule_facts:
  "dict_get (appointment_instruction ''task'') ''title'' (JStr []) = JStr ''Dentist appointment''"
  "filter (task_title_matches (lower ''Dentist appointment'')) dentist_tasks
     = [\<lparr>task_id = ''t1'', task_title = Some ''Dentist appointment'', task_due = None\<rparr>]"
  "\<not> truthy (dict_get (dentist_instruction ''event'') ''date'' JNull)"
  "\<not> truthy (dict_get (dentist_instruction ''event'') ''datetime_start'' JNull)"
  "\<not> truthy (dict_get (dentist_instruction ''event'') ''time'' JNull)"
  "filter (event_title_matches (lower ''dentist'')) dentist_events = dentist_events"
  "2 \<le> length dentist_events"
  "\<forall>e \<in> set dentist_events. start_readable sample_lib e"
  by code_simp+

theorem title_match_bidirectional_substring_witness:
  "snd (find_and_delete_task_from_instruction sample_lib (sample_tasks_api dentist_tasks)
          (appointment_instruction ''task'') ''u'')
     = [TasklistsList, TasksList ''list1'', TasksDelete ''list1'' ''t1''] \<and>
   env_message (fst (find_and_delete_calendar_event_from_instruction sample_lib
          (sample_events_api dentist_events) (dentist_instruction ''event'') ''u''))
     = Some (''Found '' @ str_of_nat (length dentist_events) @ '' events matching ''
               @ sq (lower ''dentist'') @ ''. Please specify which one to delete:'')"
proof -
  have task_rule:
    "filter (\<lambda>t. title_contains ''Dentist appointment'' (title_of_task t)) dentist_tasks
       = [\<lparr>task_id = ''t1'', task_title = Some ''Dentist appointment'', task_due = None\<rparr>]"
    by (simp only: title_contains_task [symmetric] title_rule_facts)
  have event_rule:
    "filter (\<lambda>ev. title_contains ''dentist'' (summary_of_event ev)) dentist_events
       = dentist_events"
    by (simp only: title_contains_event [symmetric] title_rule_facts)
  note tasks_part =
    title_match_bidirectional_substring
      [of "''Dentist appointment''" _ _ "sample_tasks_api dentist_tasks" "''u''"
          "appointment_instruction ''task''" sample_lib "sample_events_api dentist_events",
       THEN conjunct2, THEN conjunct2, THEN conjunct1, THEN spec, THEN spec, THEN mp,
       THEN conjunct1, THEN spec, THEN mp,
       of "[''list1'']" dentist_tasks
          "\<lparr>task_id = ''t1'', task_title = Some ''Dentist appointment'', task_due = None\<rparr>"]
  have "snd (find_and_delete_task_from_instruction sample_lib (sample_tasks_api dentist_tasks)
          (appointment_instruction ''task'') ''u'')
     = [TasklistsList, TasksList (first_tasklist_id [''list1''])]
         @ [TasksDelete (first_tasklist_id [''list1''])
              (task_id \<lparr>task_id = ''t1'', task_title = Some ''Dentist appointment'',
                        task_due = None\<rparr>)]"
  proof (rule tasks_part)
    show "get_tasks_service (sample_tasks_api dentist_tasks) ''u'' = None \<and>
      tasklists_list (sample_tasks_api dentist_tasks) = Inr [''list1''] \<and>
      tasks_list (sample_tasks_api dentist_tasks) (first_tasklist_id [''list1''])
        = Inr dentist_tasks \<and>
      dict_get (appointment_instruction ''task'') ''title'' (JStr [])
        = JStr ''Dentist appointment''"
      by (intro conjI sample_api_facts title_rule_facts)
    show "filter (\<lambda>t. title_contains ''Dentist appointment'' (title_of_task t)) dentist_tasks
       = [\<lparr>task_id = ''t1'', task_title = Some ''Dentist appointment'', task_due = None\<rparr>]"
      by (rule task_rule)
  qed
  moreover
  note events_part =
    title_match_bidirectional_substring
      [of "''dentist''" _ _ "sample_tasks_api dentist_tasks" "''u''"
          "dentist_instruction ''event''" sample_lib "sample_events_api dentist_events",
       THEN conjunct2, THEN conjunct2, THEN conjunct2, THEN conjunct1, THEN spec, THEN mp,
       THEN conjunct2, THEN conjunct2, THEN mp, THEN conjunct2, of dentist_events]
  have "env_message (fst (find_and_delete_calendar_event_from_instruction sample_lib
          (sample_events_api dentist_events) (dentist_instruction ''event'') ''u''))
     = Some (''Found ''
         @ str_of_nat (length (filter (\<lambda>ev. title_contains ''dentist'' (summary_of_event ev))
                                 dentist_events))
         @ '' events matching '' @ sq (lower ''dentist'')
         @ ''. Please specify which one to delete:'')"
  proof (rule events_part)
    show "get_calendar_service (sample_events_api dentist_events) ''u'' = None \<and>
      events_list (sample_events_api dentist_events)
        (utcnow_isoformat (sample_events_api dentist_events) @ ''Z'')
        (utcnow_plus_30_days_isoformat (sample_events_api dentist_events) @ ''Z'')
        = Inr dentist_events \<and>
      dict_get (dentist_instruction ''event'') ''title'' (JStr []) = JStr ''dentist'' \<and>
      \<not> truthy (dict_get (dentist_instruction ''event'') ''date'' JNull) \<and>
      \<not> truthy (dict_get (dentist_instruction ''event'') ''datetime_start'' JNull) \<and>
      \<not> truthy (dict_get (dentist_instruction ''event'') ''time'' JNull)"
      by (intro conjI sample_api_facts title_rule_facts dentist_titles_facts)
    show "2 \<le> length (filter (\<lambda>ev. title_contains ''dentist'' (summary_of_event ev))
                        dentist_events) \<and>
      (\<forall>e \<in> set (filter (\<lambda>ev. title_contains ''dentist'' (summary_of_event ev))
                    dentist_events). start_readable sample_lib e)"
      unfolding event_rule by (intro conjI title_rule_facts)
  qed
  ultimately show ?thesis
    unfolding event_rule by (simp add: sample_api_facts)
qed

section \<open>The temporal filter\<close>

lemma resolve_task_title_only:
  assumes "dict_get i1 ''title'' (JStr []) = dict_get i2 ''title'' (JStr [])"
  shows "resolve_task L W i1 tlid tasks calls = resolve_task L W i2 tlid tasks calls"
  using assms by (simp add: resolve_task_def)

lemma find_task_title_only:
  assumes "dict_get i1 ''title'' (JStr []) = dict_get i2 ''title'' (JStr [])"
  shows "find_and_delete_task_from_instruction L W i1 uid
           = find_and_delete_task_from_instruction L W i2 uid"
  unfolding find_and_delete_task_from_instruction_def resolve_task_title_only[OF assms] ..

lemma find_event_calls:
  assumes n: "get_calendar_service W uid = None"
      "events_list W (utcnow_isoformat W @ ''Z'') (utcnow_plus_30_days_isoformat W @ ''Z'')
         = Inr events"
      "lower_method (dict_get instruction ''title'' (JStr [])) = Inr sd"
      "\<forall>e \<in> set events. \<not> temporal_test_raises L instruction sd e"
  shows "snd (find_and_delete_calendar_event_from_instruction L W instruction uid)
           = (case filter (event_matches L instruction sd) events of
                [e] \<Rightarrow> [EventsList (utcnow_isoformat W @ ''Z'')
                          (utcnow_plus_30_days_isoformat W @ ''Z''), EventsDelete (event_id e)]
              | _ \<Rightarrow> [EventsList (utcnow_isoformat W @ ''Z'')
                        (utcnow_plus_30_days_isoformat W @ ''Z'')])"
proof -
  have loop: "matching_events_loop L sd (dict_get instruction ''date'' JNull)
              (dict_get instruction ''datetime_start'' JNull)
              (dict_get instruction ''time'' JNull) events
            = Inr (filter (event_matches L instruction sd) events)"
    unfolding matching_events_loop_iff using n(4)
    by (auto simp: temporal_test_raises_def event_matches_def [abs_def])
  show ?thesis
  proof (cases "events = []")
    case True
    with find_event_listed[OF n(1,2), of L instruction] show ?thesis by simp
  next
    case False
    with find_event_listed[OF n(1,2), of L instruction] resolve_event_matched[OF n(3) loop]
    show ?thesis by (simp add: event_outcome_calls split: list.splits)
  qed
qed

text \<open>
  Claim C3, as the code has it. The event resolver keeps exactly the candidates whose
  title passes and whose temporal test ends true (when no test raises), and its calls
  end in a delete exactly when one candidate is kept. The temporal test of an event:
  with a date hint, the all-day date of the candidate, or else the date portion of its
  start timestamp, equals the hint; with a \<^verbatim>\<open>datetime_start\<close> hint and no date hint,
  the start instant of the candidate is within 3600 seconds of the hint; with a time
  hint alone, the hour and minute of the candidate's start equal the hint; a candidate
  that lacks the start form the hint is compared with passes; with no hint every
  candidate passes. The task resolver reads no hint: two instructions with the same
  title give the same run.
\<close>

theorem temporal_filter_on_events:
  fixes L :: pylib and TW :: tasks_api and EW :: events_api and instruction :: pydict
    and uid :: user_id
  defines "re \<equiv> find_and_delete_calendar_event_from_instruction L EW instruction uid"
    and "time_min \<equiv> utcnow_isoformat EW @ ''Z''"
    and "time_max \<equiv> utcnow_plus_30_days_isoformat EW @ ''Z''"
  shows
    "(matching_events_loop L sd d ds t events = Inr m \<longleftrightarrow>
        (\<forall>e \<in> set events. \<not> (event_title_matches sd e \<and> isl (date_matches L d ds t e))) \<and>
        m = filter (\<lambda>e. event_title_matches sd e \<and> date_matches L d ds t e = Inr True) events)
   \<and> (get_calendar_service EW uid = None \<and>
       events_list EW time_min time_max = Inr events \<and>
       lower_method (dict_get instruction ''title'' (JStr [])) = Inr sd \<and>
       (\<forall>e \<in> set events. \<not> temporal_test_raises L instruction sd e) \<longrightarrow>
         snd re = (case filter (\<lambda>e. event_title_matches sd e \<and>
                       date_matches L (dict_get instruction ''date'' JNull)
                         (dict_get instruction ''datetime_start'' JNull)
                         (dict_get instruction ''time'' JNull) e = Inr True) events of
                     [e] \<Rightarrow> [EventsList time_min time_max, EventsDelete (event_id e)]
                   | _ \<Rightarrow> [EventsList time_min time_max]))
   \<and> (truthy d \<longrightarrow> nonempty (event_date ev) = Some x \<longrightarrow>
        date_matches L d ds t ev = Inr (JStr x = d))
   \<and> (truthy d \<longrightarrow> nonempty (event_date ev) = None \<longrightarrow>
        nonempty (event_dateTime ev) = Some x \<longrightarrow>
        date_matches L d ds t ev = Inr (JStr (split_T_first x) = d))
   \<and> (\<not> truthy d \<longrightarrow> s \<noteq> [] \<longrightarrow> nonempty (event_dateTime ev) = Some x \<longrightarrow>
        fromisoformat L (str_replace ''Z'' ''+00:00'' x) = Inr a \<longrightarrow>
        fromisoformat L (str_replace ''Z'' ''+00:00'' s) = Inr b \<longrightarrow>
        dt_sub a b = Inr us \<longrightarrow>
        date_matches L d (JStr s) t ev = Inr (\<bar>us\<bar> \<le> 3600 * 1000000))
   \<and> (\<not> truthy d \<longrightarrow> \<not> truthy ds \<longrightarrow> truthy t \<longrightarrow>
        nonempty (event_dateTime ev) = Some x \<longrightarrow>
        fromisoformat L (str_replace ''Z'' ''+00:00'' x) = Inr a \<longrightarrow>
        date_matches L d ds t ev = Inr (JStr (strftime_HM a) = t))
   \<and> (truthy d \<longrightarrow> nonempty (event_date ev) = None \<longrightarrow>
        nonempty (event_dateTime ev) = None \<longrightarrow> date_matches L d ds t ev = Inr True)
   \<and> (\<not> truthy d \<longrightarrow> nonempty (event_dateTime ev) = None \<longrightarrow>
        date_matches L d ds t ev = Inr True)
   \<and> (\<not> truthy d \<longrightarrow> \<not> truthy ds \<longrightarrow> \<not> truthy t \<longrightarrow>
        date_matches L d ds t ev = Inr True)
   \<and> (dict_get i1 ''title'' (JStr []) = dict_get i2 ''title'' (JStr []) \<longrightarrow>
        find_and_delete_task_from_instruction L TW i1 uid
          = find_and_delete_task_from_instruction L TW i2 uid)"
proof (intro conjI impI)
  show "matching_events_loop L sd d ds t events = Inr m \<longleftrightarrow>
        (\<forall>e \<in> set events. \<not> (event_title_matches sd e \<and> isl (date_matches L d ds t e))) \<and>
        m = filter (\<lambda>e. event_title_matches sd e \<and> date_matches L d ds t e = Inr True) events"
    by (rule matching_events_loop_iff)
next
  assume "get_calendar_service EW uid = None \<and>
       events_list EW time_min time_max = Inr events \<and>
       lower_method (dict_get instruction ''title'' (JStr [])) = Inr sd \<and>
       (\<forall>e \<in> set events. \<not> temporal_test_raises L instruction sd e)"
  then have n: "get_calendar_service EW uid = None"
    "events_list EW (utcnow_isoformat EW @ ''Z'') (utcnow_plus_30_days_isoformat EW @ ''Z'')
       = Inr events"
    "lower_method (dict_get instruction ''title'' (JStr [])) = Inr sd"
    "\<forall>e \<in> set events. \<not> temporal_test_raises L instruction sd e"
    by (simp_all add: time_min_def time_max_def)
  from find_event_calls[OF n]
  show "snd re = (case filter (\<lambda>e. event_title_matches sd e \<and>
                       date_matches L (dict_get instruction ''date'' JNull)
                         (dict_get instruction ''datetime_start'' JNull)
                         (dict_get instruction ''time'' JNull) e = Inr True) events of
                     [e] \<Rightarrow> [EventsList time_min time_max, EventsDelete (event_id e)]
                   | _ \<Rightarrow> [EventsList time_min time_max])"
    unfolding re_def time_min_def time_max_def event_matches_def [abs_def] .
next
  assume "dict_get i1 ''title'' (JStr []) = dict_get i2 ''title'' (JStr [])"
  then show "find_and_delete_task_from_instruction L TW i1 uid
          = find_and_delete_task_from_instruction L TW i2 uid"
    by (rule find_task_title_only)
next
  assume "\<not> truthy d" "nonempty (event_dateTime ev) = None"
  then show "date_matches L d ds t ev = Inr True"
    by (simp add: date_matches_def)
qed (simp_all add: date_matches_def replace_Z_method_def within_one_hour_def)

lemma half_past_five_hint_facts:
  "\<not> truthy JNull"
  "''2025-06-27T17:30:00'' \<noteq> []"
  "nonempty (event_dateTime appointment_event) = Some ''2025-06-27T17:00:00''"
  "fromisoformat sample_lib (str_replace ''Z'' ''+00:00'' ''2025-06-27T17:00:00'')
     = Inr \<lparr>dt_year = 2025, dt_month = 6, dt_day = 27, dt_hour = 17, dt_minute = 0,
                dt_second = 0, dt_microsecond = 0, dt_utcoffset = None\<rparr>"
  "fromisoformat sample_lib (str_replace ''Z'' ''+00:00'' ''2025-06-27T17:30:00'')
     = Inr \<lparr>dt_year = 2025, dt_month = 6, dt_day = 27, dt_hour = 17, dt_minute = 30,
                dt_second = 0, dt_microsecond = 0, dt_utcoffset = None\<rparr>"
  "dt_sub \<lparr>dt_year = 2025, dt_month = 6, dt_day = 27, dt_hour = 17, dt_minute = 0,
                dt_second = 0, dt_microsecond = 0, dt_utcoffset = None\<rparr>
          \<lparr>dt_year = 2025, dt_month = 6, dt_day = 27, dt_hour = 17, dt_minute = 30,
                dt_second = 0, dt_microsecond = 0, dt_utcoffset = None\<rparr>
     = Inr (- 1800000000)"
  by code_simp+

lemma date_hint_facts:
  "truthy (JStr ''2025-06-27'')"
  "nonempty (event_date followup_event) = None"
  "nonempty (event_dateTime followup_event) = Some ''2025-06-28T09:00:00''"
  "split_T_first ''2025-06-28T09:00:00'' = ''2025-06-28''"
  by code_simp+

theorem temporal_filter_on_events_witness:
  "date_matches sample_lib JNull (JStr ''2025-06-27T17:30:00'') JNull appointment_event
     = Inr True \<and>
   date_matches sample_lib (JStr ''2025-06-27'') JNull JNull followup_event = Inr False"
proof -
  note hint =
    temporal_filter_on_events
      [THEN conjunct2, THEN conjunct2, THEN conjunct2, THEN conjunct2, THEN conjunct1,
       THEN mp, THEN mp, THEN mp, THEN mp, THEN mp, THEN mp,
       OF half_past_five_hint_facts]
  have "date_matches sample_lib JNull (JStr ''2025-06-27T17:30:00'') JNull appointment_event
          = Inr (\<bar>- 1800000000 :: int\<bar> \<le> 3600 * 1000000)"
    by (rule hint)
  moreover
  note date_hint =
    temporal_filter_on_events
      [THEN conjunct2, THEN conjunct2, THEN conjunct2, THEN conjunct1,
       THEN mp, THEN mp, THEN mp, OF date_hint_facts(1,2,3)]
  have "date_matches sample_lib (JStr ''2025-06-27'') JNull JNull followup_event
          = Inr (JStr (split_T_first ''2025-06-28T09:00:00'') = JStr ''2025-06-27'')"
    by (rule date_hint)
  ultimately show ?thesis
    by (simp add: date_hint_facts(4))
qed

text \<open>
  Claim C3 as the specification words it fails. Two listed tasks hold "report" in
  their titles, one due on 28 June and one on 27 June, and the instruction carries a
  date hint of 27 June: the task resolver keeps both and asks which one to delete. And
  an all-day event, which has no hour and minute, is kept under a time hint alone: it
  is the only candidate, and it is deleted.
\<close>

theorem temporal_filter_counterexample:
  "dict_get dated_report_instruction ''date'' JNull = JStr ''2025-06-27''
   \<and> map (\<lambda>t. map_option split_T_first (task_due t)) report_pair
       = [Some ''2025-06-28'', Some ''2025-06-27'']
   \<and> env_message (fst (find_and_delete_task_from_instruction due_lib
        (sample_tasks_api report_pair) dated_report_instruction ''u''))
       = Some (''Found 2 tasks matching '' @ sq ''report''
                 @ ''. Please specify which one to delete:'')
   \<and> listed_tasks (fst (find_and_delete_task_from_instruction due_lib
        (sample_tasks_api report_pair) dated_report_instruction ''u'')) = report_pair
   \<and> snd (find_and_delete_task_from_instruction due_lib
        (sample_tasks_api report_pair) dated_report_instruction ''u'')
       = [TasklistsList, TasksList ''list1'']
   \<and> dict_get time_hint_instruction ''time'' JNull = JStr ''17:00''
   \<and> event_dateTime allday_event = None
   \<and> snd (find_and_delete_calendar_event_from_instruction sample_lib
        (sample_events_api [allday_event]) time_hint_instruction ''u'')
       = [EventsList ''2025-06-26T08:00:00Z'' ''2025-07-26T08:00:00Z'', EventsDelete ''e3'']"
  by code_simp

section \<open>An instruction without a description\<close>









end
